theory Spec2Isabelle
  imports Complex_Main
begin

section \<open>Python values, errors and n-dimensional arrays\<close>

text \<open>
  The exceptions the three source files can raise. \<open>Exception\<close> carries the message of
  the \<^verbatim>\<open>raise Exception("...")\<close> statements of \<^verbatim>\<open>ProxFn.__init__\<close>.
  \<open>RaiseNotImplemented\<close> is the failure of the statement \<^verbatim>\<open>raise NotImplemented\<close>
  (the interpreter reports it as a TypeError, since \<^verbatim>\<open>NotImplemented\<close> is not an
  exception class).
\<close>

datatype py_error =
    Exception string
  | AttributeError
  | ZeroDivisionError
  | ValueError
  | IndexError
  | AssertionError
  | RaiseNotImplemented

text \<open>
  The value of a numpy array: its shape and its elements in row-major (C) order. Elements
  are real numbers: the rounding of float32 and float64 arithmetic is not modelled.
\<close>

record ndarray =
  shape :: "nat list"
  data :: "real list"

definition wf_nd :: "ndarray \<Rightarrow> bool" where
  "wf_nd a = (length (data a) = prod_list (shape a))"

text \<open>\<^verbatim>\<open>np.ones(s)\<close> and \<^verbatim>\<open>x * np.ones(s)\<close>.\<close>

definition full :: "nat list \<Rightarrow> real \<Rightarrow> ndarray" where
  "full s x = \<lparr>shape = s, data = replicate (prod_list s) x\<rparr>"

subsection \<open>Row-major indexing and broadcasting\<close>

fun strides :: "nat list \<Rightarrow> nat list" where
  "strides [] = []"
| "strides (n # ns) = prod_list ns # strides ns"

fun unravel :: "nat list \<Rightarrow> nat \<Rightarrow> nat list" where
  "unravel [] k = []"
| "unravel (n # ns) k = (k div prod_list ns) # unravel ns (k mod prod_list ns)"

definition offset :: "nat list \<Rightarrow> nat list \<Rightarrow> nat" where
  "offset idx sts = sum_list (map2 (*) idx sts)"

text \<open>
  numpy's broadcasting of an array of shape \<open>s\<close> to the shape \<open>t\<close>: the shapes are
  aligned at the right, a dimension of \<open>s\<close> is 1 or the dimension of \<open>t\<close>, and a
  dimension that is stretched or added is read with stride 0.
\<close>

definition broadcastable :: "nat list \<Rightarrow> nat list \<Rightarrow> bool" where
  "broadcastable s t =
     (length s \<le> length t \<and>
      list_all2 (\<lambda>n m. n = 1 \<or> n = m) s (drop (length t - length s) t))"

definition bstrides :: "nat list \<Rightarrow> nat list \<Rightarrow> nat list" where
  "bstrides s t =
     replicate (length t - length s) 0 @
     map2 (\<lambda>n st. if n = 1 then 0 else st) s (strides s)"

definition broadcast_to :: "ndarray \<Rightarrow> nat list \<Rightarrow> py_error + ndarray" where
  "broadcast_to a t =
     (if broadcastable (shape a) t
      then Inr \<lparr>shape = t,
                data = map (\<lambda>k. data a ! offset (unravel t k) (bstrides (shape a) t))
                           [0..<prod_list t]\<rparr>
      else Inl ValueError)"

subsection \<open>Array objects and the memory they share\<close>

text \<open>
  A numpy array object is a view of a buffer: the buffer, the position of the first element,
  a stride (in elements) and an extent for each dimension. Several array objects can refer
  to the same elements (the same object passed twice, a slice, a transposition), and an
  in-place operation on one of them is seen through all of them. The heap is the list of
  the buffers; a new buffer is appended. Views with negative strides are not represented.
\<close>

record view =
  vw_buf :: nat
  vw_off :: nat
  vw_strides :: "nat list"
  vw_shape :: "nat list"

type_synonym heap = "real list list"

text \<open>The positions in the buffer of the elements of a view, in row-major order.\<close>

definition positions :: "view \<Rightarrow> nat list" where
  "positions a =
     map (\<lambda>k. vw_off a + offset (unravel (vw_shape a) k) (vw_strides a))
         [0..<prod_list (vw_shape a)]"

text \<open>
  An array object refers to elements of an existing buffer, and an array that is written
  to has no two indices at one position.
\<close>

definition valid_view :: "heap \<Rightarrow> view \<Rightarrow> bool" where
  "valid_view h a =
     (vw_buf a < length h \<and> distinct (positions a) \<and>
      list_all (\<lambda>p. p < length (h ! vw_buf a)) (positions a))"

text \<open>The value of an array object in a heap: the elements it refers to.\<close>

definition contents :: "heap \<Rightarrow> view \<Rightarrow> ndarray" where
  "contents h a = \<lparr>shape = vw_shape a, data = map (\<lambda>p. h ! vw_buf a ! p) (positions a)\<rparr>"

text \<open>Writing the elements \<open>xs\<close>, in row-major order, through a view.\<close>

definition store :: "heap \<Rightarrow> view \<Rightarrow> real list \<Rightarrow> heap" where
  "store h a xs =
     h[vw_buf a := fold (\<lambda>(p, x) buf. buf[p := x]) (zip (positions a) xs) (h ! vw_buf a)]"

text \<open>A new array (\<^verbatim>\<open>np.ones\<close>, \<^verbatim>\<open>np.zeros\<close>, the result of an operator): a contiguous view
  of a new buffer.\<close>

definition contiguous :: "nat \<Rightarrow> nat list \<Rightarrow> view" where
  "contiguous addr s = \<lparr>vw_buf = addr, vw_off = 0, vw_strides = strides s, vw_shape = s\<rparr>"

definition alloc :: "heap \<Rightarrow> nat list \<Rightarrow> real list \<Rightarrow> view \<times> heap" where
  "alloc h s xs = (contiguous (length h) s, h @ [xs])"

text \<open>
  The in-place operators \<^verbatim>\<open>v *= x\<close>, \<^verbatim>\<open>v /= x\<close> with a scalar and \<^verbatim>\<open>v -= w\<close>,
  \<^verbatim>\<open>v += w\<close> with an array. The operand \<open>w\<close> is broadcast to the shape of \<open>v\<close>, which does
  not change; numpy raises ValueError when it cannot. The elements of both operands are
  read before any element is written, as numpy does when the operands overlap.
\<close>

definition inplace_scalar :: "(real \<Rightarrow> real \<Rightarrow> real) \<Rightarrow> heap \<Rightarrow> view \<Rightarrow> real \<Rightarrow> heap" where
  "inplace_scalar f h v x = store h v (map (\<lambda>y. f y x) (data (contents h v)))"

definition inplace_array ::
  "(real \<Rightarrow> real \<Rightarrow> real) \<Rightarrow> heap \<Rightarrow> view \<Rightarrow> view \<Rightarrow> py_error + heap" where
  "inplace_array f h v w =
     (case broadcast_to (contents h w) (vw_shape v) of
        Inl e \<Rightarrow> Inl e
      | Inr w' \<Rightarrow> Inr (store h v (map2 f (data (contents h v)) (data w'))))"

text \<open>\<^verbatim>\<open>np.copyto(dst, src)\<close>: \<open>src\<close> is broadcast to the shape of \<open>dst\<close>.\<close>

definition copyto :: "heap \<Rightarrow> view \<Rightarrow> ndarray \<Rightarrow> py_error + heap" where
  "copyto h dst src =
     (case broadcast_to src (vw_shape dst) of
        Inl e \<Rightarrow> Inl e
      | Inr s' \<Rightarrow> Inr (store h dst (data s')))"

text \<open>\<^verbatim>\<open>np.all(a == 0)\<close>.\<close>

definition all_zero :: "ndarray \<Rightarrow> bool" where
  "all_zero a = list_all (\<lambda>x. x = 0) (data a)"

section \<open>prox\_fn.py: the class ProxFn\<close>

text \<open>An argument of the constructor: a Python scalar or an array object.\<close>

datatype pyval = Scalar real | Arr view

fun isscalar :: "pyval \<Rightarrow> bool" where
  "isscalar (Scalar _) = True"
| "isscalar (Arr _) = False"

text \<open>
  The fields of a \<^verbatim>\<open>ProxFn\<close> that the methods below read. The fields are prefixed with
  \<open>pf_\<close>: \<^verbatim>\<open>self.alpha\<close> is \<open>pf_alpha self\<close>, \<^verbatim>\<open>self.lin_op.shape\<close> is
  \<open>pf_shape self\<close>. \<^verbatim>\<open>self.b\<close> and \<^verbatim>\<open>self.c\<close> are array objects: their elements are in
  the heap, where other array objects may refer to them too.
\<close>

record ProxFn =
  pf_shape :: "nat list"
  pf_alpha :: real
  pf_beta :: real
  pf_b :: view
  pf_c :: view
  pf_gamma :: real
  pf_d :: real

fun check_dimensions :: "nat list \<Rightarrow> (pyval \<times> string) list \<Rightarrow> py_error + unit" where
  "check_dimensions s [] = Inr ()"
| "check_dimensions s ((Scalar x, name) # rest) = check_dimensions s rest"
| "check_dimensions s ((Arr a, name) # rest) =
     (if vw_shape a = s then check_dimensions s rest
      else Inl (Exception (''Invalid dimensions of '' @ name @ ''.'')))"

fun check_nonnegative_scalar :: "(pyval \<times> string) list \<Rightarrow> py_error + unit" where
  "check_nonnegative_scalar [] = Inr ()"
| "check_nonnegative_scalar ((Scalar x, name) # rest) =
     (if x < 0 then Inl (Exception (name @ '' must be a nonnegative scalar.''))
      else check_nonnegative_scalar rest)"
| "check_nonnegative_scalar ((Arr a, name) # rest) =
     Inl (Exception (name @ '' must be a nonnegative scalar.''))"

fun check_scalar :: "(pyval \<times> string) list \<Rightarrow> py_error + unit" where
  "check_scalar [] = Inr ()"
| "check_scalar ((Scalar x, name) # rest) = check_scalar rest"
| "check_scalar ((Arr a, name) # rest) = Inl (Exception (name @ '' must be a scalar.''))"

text \<open>\<^verbatim>\<open>float(x)\<close> of a value that passed the scalar checks.\<close>

fun float_of :: "heap \<Rightarrow> pyval \<Rightarrow> real" where
  "float_of h (Scalar x) = x"
| "float_of h (Arr a) = hd (data (contents h a))"

text \<open>
  \<^verbatim>\<open>self.b = b; if np.isscalar(b): self.b = b * np.ones(self.lin_op.shape)\<close>: an array is
  kept as the object it is, not copied; a scalar becomes a new array.
\<close>

fun materialize :: "heap \<Rightarrow> nat list \<Rightarrow> pyval \<Rightarrow> view \<times> heap" where
  "materialize h s (Scalar x) = alloc h s (data (full s x))"
| "materialize h s (Arr a) = (a, h)"

text \<open>
  \<^verbatim>\<open>ProxFn.__init__(lin_op, alpha, beta, b, c, gamma, d)\<close>. The second loop zips three
  values with two names, so it checks \<open>alpha\<close> and \<open>gamma\<close> only, as \<open>zip\<close> does
  here.
\<close>

definition ProxFn_init ::
  "heap \<Rightarrow> nat list \<Rightarrow> pyval \<Rightarrow> pyval \<Rightarrow> pyval \<Rightarrow> pyval \<Rightarrow> pyval \<Rightarrow> pyval
     \<Rightarrow> py_error + (ProxFn \<times> heap)" where
  "ProxFn_init h lin_op_shape alpha beta b c gamma d =
     (case check_dimensions lin_op_shape (zip [b, c] [''b'', ''c'']) of
        Inl e \<Rightarrow> Inl e
      | Inr _ \<Rightarrow>
     (case check_nonnegative_scalar (zip [alpha, gamma, d] [''alpha'', ''gamma'']) of
        Inl e \<Rightarrow> Inl e
      | Inr _ \<Rightarrow>
     (case check_scalar (zip [beta, d] [''beta'', ''d'']) of
        Inl e \<Rightarrow> Inl e
      | Inr _ \<Rightarrow>
        (let (self_b, h1) = materialize h lin_op_shape b;
             (self_c, h2) = materialize h1 lin_op_shape c
         in Inr (\<lparr>pf_shape = lin_op_shape,
                   pf_alpha = float_of h alpha,
                   pf_beta = float_of h beta,
                   pf_b = self_b,
                   pf_c = self_c,
                   pf_gamma = float_of h gamma,
                   pf_d = float_of h d\<rparr>, h2)))))"

subsection \<open>prox\<close>

text \<open>
  \<^verbatim>\<open>prox\<close> updates the caller's array \<open>v\<close> in place, and the array that \<^verbatim>\<open>_prox\<close> returns
  may be that same object, another view of the same buffer, or an array of its own. The
  abstract method \<^verbatim>\<open>_prox\<close> is a parameter: it takes \<open>rho_hat\<close>, its argument and the heap,
  and returns its result and the new heap. A call that raises returns the exception and
  the heap as it is at that moment, so that what was written before the exception is part
  of the result.
\<close>

type_synonym core_prox = "real \<Rightarrow> view \<Rightarrow> heap \<Rightarrow> (py_error \<times> heap) + (view \<times> heap)"

text \<open>
  \<^verbatim>\<open>ProxFn.prox(rho, v)\<close>, statement by statement. \<open>rho\<close> and the fields \<open>alpha\<close>,
  \<open>beta\<close>, \<open>gamma\<close> are Python floats, whose division by zero raises ZeroDivisionError.
  At \<^verbatim>\<open>xhat /= self.beta\<close> the divisor is not zero, since \<open>alpha * beta\<^sup>2\<close> was not.
\<close>

definition prox ::
  "ProxFn \<Rightarrow> core_prox \<Rightarrow> real \<Rightarrow> view \<Rightarrow> heap \<Rightarrow> (py_error \<times> heap) + (view \<times> heap)" where
  "prox self core rho v h =
     (if pf_alpha self * (pf_beta self)\<^sup>2 = 0 then Inl (ZeroDivisionError, h)
      else
        let rho_hat = (rho + 2 * pf_gamma self) / (pf_alpha self * (pf_beta self)\<^sup>2);
            h1 = inplace_scalar (*) h v rho
        in case inplace_array (-) h1 v (pf_c self) of
             Inl e \<Rightarrow> Inl (e, h1)
           | Inr h2 \<Rightarrow>
        if rho + 2 * pf_gamma self = 0 then Inl (ZeroDivisionError, h2)
        else
        let h3 = inplace_scalar (*) h2 v (pf_beta self / (rho + 2 * pf_gamma self))
        in case inplace_array (-) h3 v (pf_b self) of
             Inl e \<Rightarrow> Inl (e, h3)
           | Inr h4 \<Rightarrow>
        (case core rho_hat v h4 of
             Inl (e, h5) \<Rightarrow> Inl (e, h5)
           | Inr (xhat, h5) \<Rightarrow>
        (case inplace_array (+) h5 xhat (pf_b self) of
             Inl e \<Rightarrow> Inl (e, h5)
           | Inr h6 \<Rightarrow>
        Inr (xhat, inplace_scalar (\<lambda>y x. y / x) h6 xhat (pf_beta self)))))"

text \<open>
  The formulas of the specification for \<open>rho_hat\<close>, for \<open>v_hat\<close> from the values of \<open>v\<close>,
  \<open>c\<close> and \<open>b\<close>, and for the result from the values of \<open>x_hat\<close> and \<open>b\<close>, element by
  element.
\<close>

definition rho_hat_spec :: "ProxFn \<Rightarrow> real \<Rightarrow> real" where
  "rho_hat_spec self rho = (rho + 2 * pf_gamma self) / (pf_alpha self * (pf_beta self)\<^sup>2)"

definition v_hat_spec :: "ProxFn \<Rightarrow> real \<Rightarrow> ndarray \<Rightarrow> ndarray \<Rightarrow> ndarray \<Rightarrow> ndarray" where
  "v_hat_spec self rho v c b =
     \<lparr>shape = shape v,
      data = map (\<lambda>i. ((data v ! i * rho) - data c ! i)
                        * (pf_beta self / (rho + 2 * pf_gamma self))
                      - data b ! i)
                 [0..<length (data v)]\<rparr>"

definition x_spec :: "ProxFn \<Rightarrow> ndarray \<Rightarrow> ndarray \<Rightarrow> ndarray" where
  "x_spec self x_hat b =
     \<lparr>shape = shape x_hat,
      data = map (\<lambda>i. (data x_hat ! i + data b ! i) / pf_beta self)
                 [0..<length (data x_hat)]\<rparr>"

subsection \<open>Example values\<close>

text \<open>
  A heap of three buffers of two elements. \<open>arr0\<close>, \<open>arr1\<close> and \<open>arr2\<close> are the arrays of
  shape \<open>(2,)\<close> on them: \<open>[3, 4]\<close>, \<open>[1, 1]\<close> and \<open>[1, 0]\<close>.
\<close>

definition ex_heap :: heap where
  "ex_heap = [[3, 4], [1, 1], [1, 0]]"

definition arr0 :: view where
  "arr0 = contiguous 0 [2]"

definition arr1 :: view where
  "arr1 = contiguous 1 [2]"

definition arr2 :: view where
  "arr2 = contiguous 2 [2]"

text \<open>The wrapper with \<open>alpha = beta = 2\<close>, \<open>gamma = 1\<close>, \<open>b\<close> the array \<open>arr1\<close>, \<open>c\<close> the array \<open>arr2\<close>.\<close>

definition ex_pf :: ProxFn where
  "ex_pf = \<lparr>pf_shape = [2], pf_alpha = 2, pf_beta = 2, pf_b = arr1, pf_c = arr2,
            pf_gamma = 1, pf_d = 0\<rparr>"

text \<open>A core proximal map that writes nothing and returns its argument.\<close>

definition core_in_place :: core_prox where
  "core_in_place rho_hat v h = Inr (v, h)"


text \<open>
  A core proximal map that writes nothing and returns a view of the buffer of its argument:
  the same elements, one position further.
\<close>

definition core_shifted :: core_prox where
  "core_shifted rho_hat v h = Inr (v\<lparr>vw_off := vw_off v + 1\<rparr>, h)"

text \<open>
  A heap of two buffers, \<open>[3, 4]\<close> and \<open>[0, 0]\<close>, and the wrapper with \<open>alpha = beta = 1\<close>,
  \<open>gamma = 0\<close> whose \<open>b\<close> is the array \<open>arr0\<close> and whose \<open>c\<close> is the array \<open>arr1\<close>: a caller that
  passes \<open>arr0\<close> to \<^verbatim>\<open>prox\<close> passes the array object that the wrapper holds as \<open>b\<close>.
\<close>

definition ex_heap_alias :: heap where
  "ex_heap_alias = [[3, 4], [0, 0]]"

definition ex_pf_alias :: ProxFn where
  "ex_pf_alias = \<lparr>pf_shape = [2], pf_alpha = 1, pf_beta = 1, pf_b = arr0, pf_c = arr1,
                  pf_gamma = 0, pf_d = 0\<rparr>"



text \<open>
  The conditions that \<^verbatim>\<open>__init__\<close> tests, as predicates on an argument:
  \<^verbatim>\<open>np.isscalar(elem) or elem.shape == lin_op.shape\<close>, and
  \<^verbatim>\<open>np.isscalar(elem) and not elem < 0\<close>.
\<close>

fun scalar_or_shape :: "nat list \<Rightarrow> pyval \<Rightarrow> bool" where
  "scalar_or_shape s (Scalar x) = True"
| "scalar_or_shape s (Arr a) = (vw_shape a = s)"

fun nonnegative_scalar :: "pyval \<Rightarrow> bool" where
  "nonnegative_scalar (Scalar x) = (0 \<le> x)"
| "nonnegative_scalar (Arr a) = False"

subsection \<open>cuda\_additional\_buffers and gen\_cuda\_code\<close>

definition cuda_additional_buffers :: "heap \<Rightarrow> ProxFn \<Rightarrow> (string \<times> view) list" where
  "cuda_additional_buffers h self =
     (if \<not> all_zero (contents h (pf_c self)) then [(''c'', pf_c self)] else []) @
     (if \<not> all_zero (contents h (pf_b self)) then [(''b'', pf_b self)] else [])"

text \<open>
  The loop of \<^verbatim>\<open>gen_cuda_code\<close> over the additional buffers. The first statement of its
  body is \<^verbatim>\<open>self.argnames.append(aname)\<close>; no method of the class assigns
  \<^verbatim>\<open>self.argnames\<close> (the list initialised just above is the local \<^verbatim>\<open>argnames\<close>), so the
  first iteration raises AttributeError, before the two-argument
  \<^verbatim>\<open>self.cuda_args.append(aname, aval)\<close> is reached. The local \<^verbatim>\<open>argnames\<close> is never
  appended to.
\<close>

fun register_buffers :: "(string \<times> view) list \<Rightarrow> py_error + unit" where
  "register_buffers [] = Inr ()"
| "register_buffers ((aname, aval) # rest) = Inl AttributeError"

text \<open>
  The C expressions that \<^verbatim>\<open>gen_cuda_code\<close> builds as text, as syntax trees. \<open>Load n\<close> is
  the element \<open>n[idx]\<close> of the buffer \<open>n\<close> at the index the expression is generated for.
\<close>

datatype binop = BAdd | BSub | BMul | BDiv

datatype cexp =
    Rho
  | Lit real
  | Load string
  | Paren cexp
  | Bin cexp binop cexp

text \<open>
  The value of an expression, given \<open>rho\<close> and the element of each buffer at the index.
  A division by zero has no real value (the float is infinite or not a number): \<open>None\<close>.
\<close>

fun eval_binop :: "binop \<Rightarrow> real \<Rightarrow> real \<Rightarrow> real option" where
  "eval_binop BAdd x y = Some (x + y)"
| "eval_binop BSub x y = Some (x - y)"
| "eval_binop BMul x y = Some (x * y)"
| "eval_binop BDiv x y = (if y = 0 then None else Some (x / y))"

fun eval_cexp :: "real \<Rightarrow> (string \<Rightarrow> real) \<Rightarrow> cexp \<Rightarrow> real option" where
  "eval_cexp rho buf Rho = Some rho"
| "eval_cexp rho buf (Lit x) = Some x"
| "eval_cexp rho buf (Load n) = Some (buf n)"
| "eval_cexp rho buf (Paren e) = eval_cexp rho buf e"
| "eval_cexp rho buf (Bin e1 opr e2) =
     (case eval_cexp rho buf e1 of
        None \<Rightarrow> None
      | Some x \<Rightarrow>
     (case eval_cexp rho buf e2 of
        None \<Rightarrow> None
      | Some y \<Rightarrow> eval_binop opr x y))"

text \<open>
  The text of an expression. \<open>fmt\<close> is the format \<^verbatim>\<open>"%.8ef"\<close> of a number, \<open>ix\<close> the
  index text of each buffer.
\<close>

fun binop_text :: "binop \<Rightarrow> string" where
  "binop_text BAdd = ''+''"
| "binop_text BSub = ''-''"
| "binop_text BMul = ''*''"
| "binop_text BDiv = ''/''"

fun render :: "(real \<Rightarrow> string) \<Rightarrow> (string \<Rightarrow> string) \<Rightarrow> cexp \<Rightarrow> string" where
  "render fmt ix Rho = ''rho''"
| "render fmt ix (Lit x) = fmt x"
| "render fmt ix (Load n) = n @ ''['' @ ix n @ '']''"
| "render fmt ix (Paren e) = ''('' @ render fmt ix e @ '')''"
| "render fmt ix (Bin e1 opr e2) =
     render fmt ix e1 @ '' '' @ binop_text opr @ '' '' @ render fmt ix e2"

definition no_spaces :: "string \<Rightarrow> string" where
  "no_spaces s = filter (\<lambda>ch. ch \<noteq> CHR '' '') s"

text \<open>
  The optional fragments. In the source each is a string that is empty when the term is
  left out: \<^verbatim>\<open>ccode\<close>, \<^verbatim>\<open>bcode1\<close>, \<^verbatim>\<open>mul_beta\<close>, \<^verbatim>\<open>plus_2gamma\<close>,
  \<^verbatim>\<open>div_alpha_beta_s\<close>.
\<close>

definition ccode :: "string list \<Rightarrow> (string \<Rightarrow> string) \<Rightarrow> string" where
  "ccode argnames ix = (if ''c'' \<in> set argnames then ''- c['' @ ix ''c'' @ '']'' else '''')"

definition bcode1 :: "string list \<Rightarrow> (string \<Rightarrow> string) \<Rightarrow> string" where
  "bcode1 argnames ix = (if ''b'' \<in> set argnames then '' - b['' @ ix ''b'' @ '']'' else '''')"

definition plus_2gamma :: "(real \<Rightarrow> string) \<Rightarrow> ProxFn \<Rightarrow> string" where
  "plus_2gamma fmt self =
     (if pf_gamma self = 0 then '''' else '' + '' @ fmt (pf_gamma self * 2))"

definition div_alpha_beta_s :: "(real \<Rightarrow> string) \<Rightarrow> ProxFn \<Rightarrow> string" where
  "div_alpha_beta_s fmt self =
     (if pf_alpha self * (pf_beta self)\<^sup>2 = 1 then ''''
      else '' / '' @ fmt (pf_alpha self * (pf_beta self)\<^sup>2))"

definition mul_beta :: "(real \<Rightarrow> string) \<Rightarrow> ProxFn \<Rightarrow> string" where
  "mul_beta fmt self = (if pf_beta self = 1 then '''' else '' * '' @ fmt (pf_beta self))"

text \<open>
  The text that the lambda \<^verbatim>\<open>gen_v\<close> returns:
  \<^verbatim>\<open>"(((v[%(idx)s] * rho)%(ccode)s)%(mul_beta)s) / (rho%(plus_2gamma)s%(bcode1)s)"\<close>,
  and the text of the line \<^verbatim>\<open>float rho_hat = (rho%(plus_2gamma)s)%(div_alpha_beta_s)s;\<close>
  after the equals sign.
\<close>

definition gen_v_text ::
  "(real \<Rightarrow> string) \<Rightarrow> (string \<Rightarrow> string) \<Rightarrow> string list \<Rightarrow> ProxFn \<Rightarrow> string" where
  "gen_v_text fmt ix argnames self =
     ''(((v['' @ ix ''v'' @ ''] * rho)'' @ ccode argnames ix @ '')'' @ mul_beta fmt self
       @ '') / (rho'' @ plus_2gamma fmt self @ bcode1 argnames ix @ '')''"

definition rho_hat_text :: "(real \<Rightarrow> string) \<Rightarrow> ProxFn \<Rightarrow> string" where
  "rho_hat_text fmt self =
     ''(rho'' @ plus_2gamma fmt self @ '')'' @ div_alpha_beta_s fmt self"

text \<open>The same two expressions as trees, read with the precedence of C.\<close>

definition rho_plus_2gamma :: "ProxFn \<Rightarrow> cexp" where
  "rho_plus_2gamma self =
     (if pf_gamma self = 0 then Rho else Bin Rho BAdd (Lit (pf_gamma self * 2)))"

definition gen_v :: "string list \<Rightarrow> ProxFn \<Rightarrow> cexp" where
  "gen_v argnames self =
     (let e1 = Paren (Bin (Load ''v'') BMul Rho);
          e2 = Paren (if ''c'' \<in> set argnames then Bin e1 BSub (Load ''c'') else e1);
          e3 = Paren (if pf_beta self = 1 then e2 else Bin e2 BMul (Lit (pf_beta self)));
          den = Paren (if ''b'' \<in> set argnames
                       then Bin (rho_plus_2gamma self) BSub (Load ''b'')
                       else rho_plus_2gamma self)
      in Bin e3 BDiv den)"

definition gen_rho_hat :: "ProxFn \<Rightarrow> cexp" where
  "gen_rho_hat self =
     (if pf_alpha self * (pf_beta self)\<^sup>2 = 1 then Paren (rho_plus_2gamma self)
      else Bin (Paren (rho_plus_2gamma self)) BDiv (Lit (pf_alpha self * (pf_beta self)\<^sup>2)))"

text \<open>
  The statements after the core computation: \<^verbatim>\<open>bcode2\<close> is \<^verbatim>\<open>xhatc += b[vidx];\<close> and
  \<^verbatim>\<open>xhatc_div_beta\<close> is \<^verbatim>\<open>xhatc /= beta;\<close>, each present or absent.
\<close>

datatype cstmt = AddLoad string | DivLit real

fun exec_cstmt :: "(string \<Rightarrow> real) \<Rightarrow> cstmt \<Rightarrow> real \<Rightarrow> real option" where
  "exec_cstmt buf (AddLoad n) x = Some (x + buf n)"
| "exec_cstmt buf (DivLit y) x = (if y = 0 then None else Some (x / y))"

fun exec_cstmts :: "(string \<Rightarrow> real) \<Rightarrow> cstmt list \<Rightarrow> real \<Rightarrow> real option" where
  "exec_cstmts buf [] x = Some x"
| "exec_cstmts buf (s # ss) x =
     (case exec_cstmt buf s x of None \<Rightarrow> None | Some y \<Rightarrow> exec_cstmts buf ss y)"

definition gen_post :: "string list \<Rightarrow> ProxFn \<Rightarrow> cstmt list" where
  "gen_post argnames self =
     (if ''b'' \<in> set argnames then [AddLoad ''b''] else []) @
     (if pf_beta self = 1 then [] else [DivLit (pf_beta self)])"

text \<open>
  The kernel that \<^verbatim>\<open>gen_cuda_code\<close> writes: the parameters after \<open>rho\<close>, the expression
  of \<open>rho_hat\<close>, the expression that \<^verbatim>\<open>gen_v\<close> hands to the code generator of the core
  (\<^verbatim>\<open>_prox_cuda\<close>, an abstract method), the statements between the core and the store
  \<^verbatim>\<open>xhat[vidx] = xhatc\<close>, and the bound \<open>dimv\<close> of the loop.
\<close>

record prox_kernel =
  k_argnames :: "string list"
  k_rho_hat :: cexp
  k_v_hat :: cexp
  k_post :: "cstmt list"
  k_dimv :: nat

definition emit_kernel :: "string list \<Rightarrow> ProxFn \<Rightarrow> prox_kernel" where
  "emit_kernel argnames self =
     \<lparr>k_argnames = argnames,
      k_rho_hat = gen_rho_hat self,
      k_v_hat = gen_v argnames self,
      k_post = gen_post argnames self,
      k_dimv = prod_list (pf_shape self)\<rparr>"

definition gen_cuda_code :: "heap \<Rightarrow> ProxFn \<Rightarrow> py_error + prox_kernel" where
  "gen_cuda_code h self =
     (let argnames = []
      in case register_buffers (cuda_additional_buffers h self) of
           Inl e \<Rightarrow> Inl e
         | Inr _ \<Rightarrow> Inr (emit_kernel argnames self))"

text \<open>
  A heap of two buffers of one element, \<open>[1]\<close> and \<open>[0]\<close>, with the arrays \<open>one\<close> and
  \<open>zero\<close> of shape \<open>(1,)\<close> on them; a wrapper with \<open>b = 1\<close> and \<open>c = 0\<close>, and one with
  \<open>b = c = 0\<close>.
\<close>

definition ex_heap_1 :: heap where
  "ex_heap_1 = [[1], [0]]"

definition ex_pf_b :: ProxFn where
  "ex_pf_b = \<lparr>pf_shape = [1], pf_alpha = 1, pf_beta = 1,
              pf_b = contiguous 0 [1], pf_c = contiguous 1 [1],
              pf_gamma = 0, pf_d = 0\<rparr>"

definition ex_pf_0 :: ProxFn where
  "ex_pf_0 = \<lparr>pf_shape = [1], pf_alpha = 2, pf_beta = 2,
              pf_b = contiguous 1 [1], pf_c = contiguous 1 [1],
              pf_gamma = 1, pf_d = 0\<rparr>"

text \<open>The elements of the buffers at the one index: \<open>v = 3\<close>, \<open>b = 1\<close>, \<open>c = 0\<close>.\<close>

definition ex_buf :: "string \<Rightarrow> real" where
  "ex_buf n = (if n = ''v'' then 3 else if n = ''b'' then 1 else 0)"

section \<open>lin\_ops: operations of numpy on array values\<close>

text \<open>
  The methods of the two operators read the caller's input array, compute a result in
  arrays of their own and copy it to the caller's output array with \<^verbatim>\<open>np.copyto\<close>. The
  arrays that a method creates are values here; the arrays of the caller are array objects
  in the heap.
\<close>

text \<open>\<^verbatim>\<open>np.zeros(s)\<close>.\<close>

definition zeros :: "nat list \<Rightarrow> ndarray" where
  "zeros s = full s 0"

text \<open>
  \<^verbatim>\<open>a[..., i]\<close> and \<^verbatim>\<open>a[..., i, j]\<close>: the indices \<open>tail\<close> select in the last dimensions of
  \<open>a\<close>, the result has the leading dimensions. numpy raises IndexError for an index that
  is not below its dimension and for more indices than dimensions.
\<close>

definition index_at :: "ndarray \<Rightarrow> nat list \<Rightarrow> py_error + ndarray" where
  "index_at a tail =
     (let r = length (shape a) - length tail;
          lead = take r (shape a);
          dims = drop r (shape a)
      in if length tail \<le> length (shape a) \<and> list_all2 (<) tail dims
         then Inr \<lparr>shape = lead,
                   data = map (\<lambda>p. data a ! (p * prod_list dims + offset tail (strides dims)))
                              [0..<prod_list lead]\<rparr>
         else Inl IndexError)"

text \<open>
  The shape to which two shapes broadcast, from the last dimension backwards: two
  dimensions agree when they are equal or one of them is 1.
\<close>

fun broadcast_dims :: "nat list \<Rightarrow> nat list \<Rightarrow> nat list option" where
  "broadcast_dims [] t = Some t"
| "broadcast_dims (n # s) [] = Some (n # s)"
| "broadcast_dims (n # s) (m # t) =
     (if n = m \<or> m = 1 then map_option (Cons n) (broadcast_dims s t)
      else if n = 1 then map_option (Cons m) (broadcast_dims s t)
      else None)"

definition broadcast_shapes :: "nat list \<Rightarrow> nat list \<Rightarrow> nat list option" where
  "broadcast_shapes s t = map_option rev (broadcast_dims (rev s) (rev t))"

text \<open>\<^verbatim>\<open>a * b\<close> of two arrays; numpy raises ValueError when the shapes do not broadcast.\<close>

definition multiply :: "ndarray \<Rightarrow> ndarray \<Rightarrow> py_error + ndarray" where
  "multiply a b =
     (case broadcast_shapes (shape a) (shape b) of
        None \<Rightarrow> Inl ValueError
      | Some u \<Rightarrow>
     (case broadcast_to a u of
        Inl e \<Rightarrow> Inl e
      | Inr a' \<Rightarrow>
     (case broadcast_to b u of
        Inl e \<Rightarrow> Inl e
      | Inr b' \<Rightarrow> Inr \<lparr>shape = u, data = map2 (*) (data a') (data b')\<rparr>)))"

text \<open>
  \<^verbatim>\<open>res[..., i] += x\<close> and \<^verbatim>\<open>res[..., i, j] += x\<close>: \<open>x\<close> is broadcast to the shape of the
  selection, and numpy raises ValueError when it cannot. The element \<open>k\<close> of \<open>res\<close> is in
  the selection when its position in the last dimensions is that of \<open>tail\<close>.
\<close>

definition iadd_at :: "ndarray \<Rightarrow> nat list \<Rightarrow> ndarray \<Rightarrow> py_error + ndarray" where
  "iadd_at res tail x =
     (let r = length (shape res) - length tail;
          lead = take r (shape res);
          dims = drop r (shape res)
      in if \<not> (length tail \<le> length (shape res) \<and> list_all2 (<) tail dims)
         then Inl IndexError
         else case broadcast_to x lead of
                Inl e \<Rightarrow> Inl e
              | Inr x' \<Rightarrow>
                Inr (res\<lparr>data :=
                       map (\<lambda>k. if k mod prod_list dims = offset tail (strides dims)
                                 then data res ! k + data x' ! (k div prod_list dims)
                                 else data res ! k)
                           [0..<length (data res)]\<rparr>))"

text \<open>A \<^verbatim>\<open>for\<close> loop over a list whose body can raise.\<close>

fun for_loop :: "'i list \<Rightarrow> ('i \<Rightarrow> 's \<Rightarrow> py_error + 's) \<Rightarrow> 's \<Rightarrow> py_error + 's" where
  "for_loop [] body s = Inr s"
| "for_loop (i # is) body s =
     (case body i s of
        Inl e \<Rightarrow> Inl e
      | Inr s' \<Rightarrow> for_loop is body s')"

text \<open>\<^verbatim>\<open>np.amax(a)\<close>; numpy raises ValueError for an array with no element.\<close>

definition amax :: "real list \<Rightarrow> py_error + real" where
  "amax xs = (if xs = [] then Inl ValueError else Inr (fold max (tl xs) (hd xs)))"

text \<open>\<^verbatim>\<open>xs[0]\<close> of a Python list.\<close>

definition first :: "'a list \<Rightarrow> py_error + 'a" where
  "first xs = (if xs = [] then Inl IndexError else Inr (hd xs))"

text \<open>
  The inner product of two arrays of one shape, the sum of the products of their elements.
  It is the \<open><x, y>\<close> of the specification.
\<close>

definition dot :: "ndarray \<Rightarrow> ndarray \<Rightarrow> real" where
  "dot a b = sum_list (map2 (*) (data a) (data b))"

text \<open>
  Modelled from the spec: the constructor \<^verbatim>\<open>LinOp.__init__(input_nodes, shape)\<close> of the base
  class is not among the source files. By the specification a node has an immutable shape
  and an ordered list of input nodes; the constructor records the two. Of an input node
  only its shape is read by the code below, so a node is given by the shapes of its inputs
  and its own shape.
\<close>

record LinOp =
  input_shapes :: "nat list list"
  lo_shape :: "nat list"

definition LinOp_init :: "nat list list \<Rightarrow> nat list \<Rightarrow> LinOp" where
  "LinOp_init inputs s = \<lparr>input_shapes = inputs, lo_shape = s\<rparr>"

section \<open>pxwise\_matrixmult.py\<close>

text \<open>
  The fields of the operator are prefixed with \<open>px_\<close>: \<^verbatim>\<open>self.A\<close> is \<open>px_A\<close>, a copy of the
  argument as an array of its own (its conversion to float32 is not modelled),
  \<^verbatim>\<open>self.normbound\<close> is \<open>px_normbound\<close> with \<open>None\<close> for \<^verbatim>\<open>None\<close>.
\<close>

record pxwise_matrixmult =
  px_A :: ndarray
  px_normbound :: "real option"
  px_node :: LinOp

text \<open>
  \<^verbatim>\<open>np.all(np.array(s) == np.array(t))\<close> for two tuples of dimensions. The two arrays have
  one dimension, of the lengths of the tuples. When the lengths are equal the comparison is
  element by element; when one length is 1 that element is compared with every element of
  the other array (with none, when the other tuple is empty, and \<^verbatim>\<open>np.all\<close> of no element
  is true). Otherwise the arrays do not broadcast: \<open>None\<close>.
\<close>

definition np_all_eq :: "nat list \<Rightarrow> nat list \<Rightarrow> bool option" where
  "np_all_eq s t =
     (if length s = length t then Some (s = t)
      else if length s = 1 then Some (list_all (\<lambda>m. hd s = m) t)
      else if length t = 1 then Some (list_all (\<lambda>n. n = hd t) s)
      else None)"

text \<open>
  \<^verbatim>\<open>pxwise_matrixmult.__init__(A, arg, normbound)\<close>, with the shape of the node \<open>arg\<close>. The
  one test is the \<^verbatim>\<open>assert\<close> on \<^verbatim>\<open>A.shape[:-2]\<close> and \<^verbatim>\<open>arg.shape[:-1]\<close>. For two tuples
  that do not broadcast, numpy before 1.25 gives \<^verbatim>\<open>False\<close> for \<^verbatim>\<open>==\<close>, so that the
  assertion fails; a later numpy raises ValueError in \<^verbatim>\<open>==\<close>. The model has
  AssertionError for both.
\<close>

definition pxwise_matrixmult_init ::
  "ndarray \<Rightarrow> nat list \<Rightarrow> real option \<Rightarrow> py_error + pxwise_matrixmult" where
  "pxwise_matrixmult_init A arg_shape normbound =
     (case np_all_eq (butlast (butlast (shape A))) (butlast arg_shape) of
        None \<Rightarrow> Inl AssertionError
      | Some False \<Rightarrow> Inl AssertionError
      | Some True \<Rightarrow>
          Inr \<lparr>px_A = A, px_normbound = normbound,
                px_node = LinOp_init [arg_shape] (butlast (shape A))\<rparr>)"

text \<open>
  The body of the two loops of \<^verbatim>\<open>forward\<close>,
  \<^verbatim>\<open>res[...,i] += self.A[...,i,j]*arg[...,j]\<close>, and of \<^verbatim>\<open>adjoint\<close>,
  \<^verbatim>\<open>res[...,i] += self.A[...,j,i]*arg[...,j]\<close>.
\<close>

definition forward_body :: "ndarray \<Rightarrow> ndarray \<Rightarrow> nat \<Rightarrow> nat \<Rightarrow> ndarray \<Rightarrow> py_error + ndarray" where
  "forward_body A arg i j res =
     (case index_at A [i, j] of
        Inl e \<Rightarrow> Inl e
      | Inr Aij \<Rightarrow>
     (case index_at arg [j] of
        Inl e \<Rightarrow> Inl e
      | Inr argj \<Rightarrow>
     (case multiply Aij argj of
        Inl e \<Rightarrow> Inl e
      | Inr x \<Rightarrow> iadd_at res [i] x)))"

definition adjoint_body :: "ndarray \<Rightarrow> ndarray \<Rightarrow> nat \<Rightarrow> nat \<Rightarrow> ndarray \<Rightarrow> py_error + ndarray" where
  "adjoint_body A arg i j res =
     (case index_at A [j, i] of
        Inl e \<Rightarrow> Inl e
      | Inr Aji \<Rightarrow>
     (case index_at arg [j] of
        Inl e \<Rightarrow> Inl e
      | Inr argj \<Rightarrow>
     (case multiply Aji argj of
        Inl e \<Rightarrow> Inl e
      | Inr x \<Rightarrow> iadd_at res [i] x)))"

text \<open>
  The array \<open>res\<close> that \<^verbatim>\<open>forward\<close> computes from the value of its input, and the one
  that \<^verbatim>\<open>adjoint\<close> computes. For an \<open>A\<close> of fewer than two dimensions
  \<^verbatim>\<open>self.A.shape[-2]\<close> raises IndexError: in \<^verbatim>\<open>forward\<close> at the first loop, in
  \<^verbatim>\<open>adjoint\<close> at the inner loop, when the outer loop has an iteration
  (\<^verbatim>\<open>self.A.shape[-1]\<close> raises it before, when \<open>A\<close> has no dimension).
\<close>

definition forward_res :: "ndarray \<Rightarrow> ndarray \<Rightarrow> py_error + ndarray" where
  "forward_res A arg =
     (if length (shape A) < 2 then Inl IndexError
      else for_loop [0..<last (butlast (shape A))]
             (\<lambda>i. for_loop [0..<last (shape A)] (\<lambda>j. forward_body A arg i j))
             (zeros (butlast (shape A))))"

definition adjoint_res :: "ndarray \<Rightarrow> ndarray \<Rightarrow> py_error + ndarray" where
  "adjoint_res A arg =
     (if shape A = [] then Inl IndexError
      else for_loop [0..<last (shape A)]
             (\<lambda>i res. if length (shape A) < 2 then Inl IndexError
                      else for_loop [0..<last (butlast (shape A))]
                             (\<lambda>j. adjoint_body A arg i j) res)
             (zeros (butlast (butlast (shape A)) @ [last (shape A)])))"

text \<open>
  \<^verbatim>\<open>forward(inputs, outputs)\<close> reads \<^verbatim>\<open>inputs[0]\<close> and writes \<^verbatim>\<open>outputs[0]\<close>;
  \<^verbatim>\<open>adjoint(outputs, inputs)\<close> reads \<^verbatim>\<open>outputs[0]\<close> and writes \<^verbatim>\<open>inputs[0]\<close>.
\<close>

definition pxwise_forward ::
  "pxwise_matrixmult \<Rightarrow> view list \<Rightarrow> view list \<Rightarrow> heap \<Rightarrow> py_error + heap" where
  "pxwise_forward self inputs outputs h =
     (case first inputs of
        Inl e \<Rightarrow> Inl e
      | Inr arg \<Rightarrow>
     (case forward_res (px_A self) (contents h arg) of
        Inl e \<Rightarrow> Inl e
      | Inr res \<Rightarrow>
     (case first outputs of
        Inl e \<Rightarrow> Inl e
      | Inr out \<Rightarrow> copyto h out res)))"

definition pxwise_adjoint ::
  "pxwise_matrixmult \<Rightarrow> view list \<Rightarrow> view list \<Rightarrow> heap \<Rightarrow> py_error + heap" where
  "pxwise_adjoint self outputs inputs h =
     (case first outputs of
        Inl e \<Rightarrow> Inl e
      | Inr arg \<Rightarrow>
     (case adjoint_res (px_A self) (contents h arg) of
        Inl e \<Rightarrow> Inl e
      | Inr res \<Rightarrow>
     (case first inputs of
        Inl e \<Rightarrow> Inl e
      | Inr out \<Rightarrow> copyto h out res)))"

text \<open>
  The formulas of the specification, for \<open>A\<close> of shape \<open>K \<times> N \<times> M\<close>, on row-major data:
  \<open>y[pixel, i] = \<Sum>j. A[pixel, i, j] * x[pixel, j]\<close> and
  \<open>x[pixel, i] = \<Sum>j. A[pixel, j, i] * y[pixel, j]\<close>. The element \<open>k\<close> of an array of
  shape \<open>K \<times> D\<close> is at the pixel \<open>k div D\<close> and the index \<open>k mod D\<close>.
\<close>

definition forward_spec :: "nat list \<Rightarrow> nat \<Rightarrow> nat \<Rightarrow> ndarray \<Rightarrow> ndarray \<Rightarrow> ndarray" where
  "forward_spec K N M A x =
     \<lparr>shape = K @ [N],
      data = map (\<lambda>k. \<Sum>j<M. data A ! (((k div N) * N + k mod N) * M + j)
                               * data x ! ((k div N) * M + j))
                 [0..<prod_list K * N]\<rparr>"

definition adjoint_spec :: "nat list \<Rightarrow> nat \<Rightarrow> nat \<Rightarrow> ndarray \<Rightarrow> ndarray \<Rightarrow> ndarray" where
  "adjoint_spec K N M A y =
     \<lparr>shape = K @ [M],
      data = map (\<lambda>k. \<Sum>j<N. data A ! (((k div M) * N + j) * M + k mod M)
                               * data y ! ((k div M) * N + j))
                 [0..<prod_list K * M]\<rparr>"

subsection \<open>norm\_bound\<close>

text \<open>
  The three loops that fill \<open>ATA\<close>, with the body
  \<^verbatim>\<open>ATA[...,i,j] += self.A[...,k,i] * self.A[...,k,j]\<close>.
\<close>

definition ATA_body :: "ndarray \<Rightarrow> nat \<Rightarrow> nat \<Rightarrow> nat \<Rightarrow> ndarray \<Rightarrow> py_error + ndarray" where
  "ATA_body A i j k ATA =
     (case index_at A [k, i] of
        Inl e \<Rightarrow> Inl e
      | Inr Aki \<Rightarrow>
     (case index_at A [k, j] of
        Inl e \<Rightarrow> Inl e
      | Inr Akj \<Rightarrow>
     (case multiply Aki Akj of
        Inl e \<Rightarrow> Inl e
      | Inr x \<Rightarrow> iadd_at ATA [i, j] x)))"

text \<open>
  For an \<open>A\<close> of fewer than two dimensions \<^verbatim>\<open>norm_bound\<close> raises IndexError at
  \<^verbatim>\<open>self.A.shape[-1]\<close>, at \<^verbatim>\<open>self.A.shape[-2]\<close> in the loops or at that expression in
  the test after the loops.
\<close>

definition compute_ATA :: "ndarray \<Rightarrow> py_error + ndarray" where
  "compute_ATA A =
     (if length (shape A) < 2 then Inl IndexError
      else for_loop [0..<last (shape A)]
             (\<lambda>i. for_loop [0..<last (shape A)]
                (\<lambda>j. for_loop [0..<last (butlast (shape A))] (\<lambda>k. ATA_body A i j k)))
             (zeros (butlast (butlast (shape A)) @ [last (shape A), last (shape A)])))"

text \<open>
  The branch of \<^verbatim>\<open>norm_bound\<close> under \<^verbatim>\<open>if self.A.shape[-2] == 2\<close>, from the arrays
  \<open>a\<close>, \<open>b\<close>, \<open>c\<close>, \<open>d\<close> (all of the shape of the pixels) to \<open>nb\<close>:
  \<^verbatim>\<open>gapA = np.sqrt(np.maximum(0, (a+d)**2 - 4*(a*d-b*c)))\<close>,
  \<^verbatim>\<open>l1 = ((a+d) + gapA)*0.5\<close>, \<^verbatim>\<open>l2 = ((a+d) - gapA)*0.5\<close>,
  \<^verbatim>\<open>l = np.maximum(np.amax(l1), np.amax(l2))\<close>, \<^verbatim>\<open>nb = max(l, nb)\<close> with \<open>nb = 0\<close>
  before.
\<close>

definition gapA :: "real \<Rightarrow> real \<Rightarrow> real \<Rightarrow> real \<Rightarrow> real" where
  "gapA a b c d = sqrt (max 0 ((a + d)\<^sup>2 - 4 * (a * d - b * c)))"

definition eigen_nb :: "ndarray \<Rightarrow> ndarray \<Rightarrow> ndarray \<Rightarrow> ndarray \<Rightarrow> py_error + real" where
  "eigen_nb a b c d =
     (let n = length (data a);
          l1 = map (\<lambda>p. ((data a ! p + data d ! p)
                           + gapA (data a ! p) (data b ! p) (data c ! p) (data d ! p)) * 0.5)
                   [0..<n];
          l2 = map (\<lambda>p. ((data a ! p + data d ! p)
                           - gapA (data a ! p) (data b ! p) (data c ! p) (data d ! p)) * 0.5)
                   [0..<n]
      in case amax l1 of
           Inl e \<Rightarrow> Inl e
         | Inr m1 \<Rightarrow>
        (case amax l2 of
           Inl e \<Rightarrow> Inl e
         | Inr m2 \<Rightarrow> Inr (max (max m1 m2) 0)))"

text \<open>
  \<^verbatim>\<open>norm_bound(input_mags)\<close>. The test of the branch is on \<^verbatim>\<open>self.A.shape[-2]\<close>, the
  number \<open>N\<close> of rows of the matrices; \<open>ATA\<close> has \<open>M\<close> rows and \<open>M\<close> columns, with \<open>M\<close> the
  last dimension of \<open>A\<close>. The other branch is \<^verbatim>\<open>raise NotImplemented\<close>.
\<close>

definition pxwise_norm_bound :: "pxwise_matrixmult \<Rightarrow> real list \<Rightarrow> py_error + real" where
  "pxwise_norm_bound self input_mags =
     (case px_normbound self of
        Some nb \<Rightarrow>
          (case first input_mags of
             Inl e \<Rightarrow> Inl e
           | Inr m \<Rightarrow> Inr (nb * m))
      | None \<Rightarrow>
     (case compute_ATA (px_A self) of
        Inl e \<Rightarrow> Inl e
      | Inr ATA \<Rightarrow>
        if last (butlast (shape (px_A self))) = 2 then
          (case index_at ATA [0, 0] of
             Inl e \<Rightarrow> Inl e
           | Inr a \<Rightarrow>
          (case index_at ATA [0, 1] of
             Inl e \<Rightarrow> Inl e
           | Inr b \<Rightarrow>
          (case index_at ATA [1, 0] of
             Inl e \<Rightarrow> Inl e
           | Inr c \<Rightarrow>
          (case index_at ATA [1, 1] of
             Inl e \<Rightarrow> Inl e
           | Inr d \<Rightarrow>
          (case eigen_nb a b c d of
             Inl e \<Rightarrow> Inl e
           | Inr nb \<Rightarrow>
          (case first input_mags of
             Inl e \<Rightarrow> Inl e
           | Inr m \<Rightarrow> Inr (nb * m)))))))
        else Inl RaiseNotImplemented))"

text \<open>
  The bound of the specification for matrices with two columns: the square root of the
  largest eigenvalue of \<open>A\<^sup>T A\<close> over the pixels, times the magnitude of the input.
\<close>

definition norm_bound_spec :: "ndarray \<Rightarrow> ndarray \<Rightarrow> ndarray \<Rightarrow> ndarray \<Rightarrow> real \<Rightarrow> py_error + real" where
  "norm_bound_spec a b c d m =
     (case eigen_nb a b c d of
        Inl e \<Rightarrow> Inl e
      | Inr l \<Rightarrow> Inr (sqrt l * m))"

section \<open>transpose.py\<close>

text \<open>
  The fields of the operator are prefixed with \<open>tr_\<close>. An axis is a natural number:
  the negative axes of numpy, counted from the last dimension, are not represented.
\<close>

record transpose =
  tr_axes :: "nat list"
  tr_inverse :: "nat list"
  tr_node :: LinOp

text \<open>
  The loop \<^verbatim>\<open>for idx, i in enumerate(self.axes): self.inverse[i] = idx\<close> on the array
  \<^verbatim>\<open>np.array(range(len(self.axes)))\<close>; the assignment raises IndexError for an \<open>i\<close> that
  is not below the length.
\<close>

definition inverse_body :: "nat \<times> nat \<Rightarrow> nat list \<Rightarrow> py_error + nat list" where
  "inverse_body p invs =
     (case p of (idx, i) \<Rightarrow> if i < length invs then Inr (invs[i := idx]) else Inl IndexError)"

text \<open>
  \<^verbatim>\<open>transpose.__init__(arg, axes)\<close>, with the shape of the node \<open>arg\<close>.
  \<^verbatim>\<open>arg.shape[i]\<close> raises IndexError for an \<open>i\<close> that is not below the rank. Nothing tests
  that \<open>axes\<close> is a permutation.
\<close>

definition transpose_init :: "nat list \<Rightarrow> nat list \<Rightarrow> py_error + transpose" where
  "transpose_init arg_shape axes =
     (case for_loop (enumerate 0 axes) inverse_body [0..<length axes] of
        Inl e \<Rightarrow> Inl e
      | Inr invs \<Rightarrow>
          if list_all (\<lambda>i. i < length arg_shape) axes
          then Inr \<lparr>tr_axes = axes, tr_inverse = invs,
                    tr_node = LinOp_init [arg_shape] (map (\<lambda>i. arg_shape ! i) axes)\<rparr>
          else Inl IndexError)"

text \<open>
  \<^verbatim>\<open>np.transpose(a, axes)\<close> returns a view of \<open>a\<close> with its dimensions and strides
  permuted. numpy raises ValueError when \<open>axes\<close> has not the length of the rank, names an
  axis twice or names an axis that is not below the rank.
\<close>

definition np_transpose :: "view \<Rightarrow> nat list \<Rightarrow> py_error + view" where
  "np_transpose a axes =
     (if length axes = length (vw_shape a) \<and> distinct axes \<and>
         list_all (\<lambda>i. i < length (vw_shape a)) axes
      then Inr (a\<lparr>vw_strides := map (\<lambda>i. vw_strides a ! i) axes,
                  vw_shape := map (\<lambda>i. vw_shape a ! i) axes\<rparr>)
      else Inl ValueError)"

text \<open>
  \<^verbatim>\<open>forward(inputs, outputs)\<close> and \<^verbatim>\<open>adjoint(inputs, outputs)\<close>: both read
  \<^verbatim>\<open>inputs[0]\<close> and write \<^verbatim>\<open>outputs[0]\<close>.
\<close>

definition transpose_forward ::
  "transpose \<Rightarrow> view list \<Rightarrow> view list \<Rightarrow> heap \<Rightarrow> py_error + heap" where
  "transpose_forward self inputs outputs h =
     (case first inputs of
        Inl e \<Rightarrow> Inl e
      | Inr x \<Rightarrow>
     (case np_transpose x (tr_axes self) of
        Inl e \<Rightarrow> Inl e
      | Inr shaped_input \<Rightarrow>
     (case first outputs of
        Inl e \<Rightarrow> Inl e
      | Inr out \<Rightarrow> copyto h out (contents h shaped_input))))"

definition transpose_adjoint ::
  "transpose \<Rightarrow> view list \<Rightarrow> view list \<Rightarrow> heap \<Rightarrow> py_error + heap" where
  "transpose_adjoint self inputs outputs h =
     (case first inputs of
        Inl e \<Rightarrow> Inl e
      | Inr x \<Rightarrow>
     (case np_transpose x (tr_inverse self) of
        Inl e \<Rightarrow> Inl e
      | Inr shaped_input \<Rightarrow>
     (case first outputs of
        Inl e \<Rightarrow> Inl e
      | Inr out \<Rightarrow> copyto h out (contents h shaped_input))))"

text \<open>A permutation of \<open>range(n)\<close>.\<close>

definition is_permutation :: "nat list \<Rightarrow> nat \<Rightarrow> bool" where
  "is_permutation axes n = (length axes = n \<and> distinct axes \<and> list_all (\<lambda>i. i < n) axes)"

section \<open>Properties\<close>

subsection \<open>Indexing, broadcasting and the heap\<close>

lemma broadcastable_refl: "broadcastable s s"
  by (simp add: broadcastable_def list_all2_same)

lemma unravel_length [simp]: "length (unravel s k) = length s"
  by (induction s arbitrary: k) auto

lemma strides_length [simp]: "length (strides s) = length s"
  by (induction s) auto

lemma offset_Cons [simp]: "offset (i # idx) (st # sts) = i * st + offset idx sts"
  by (simp add: offset_def)

lemma offset_Nil [simp]: "offset [] sts = 0"
  by (simp add: offset_def)

lemma offset_unravel_strides:
  "k < prod_list s \<Longrightarrow> offset (unravel s k) (strides s) = k"
proof (induction s arbitrary: k)
  case Nil
  then show ?case by simp
next
  case (Cons n ns)
  have pos: "0 < prod_list ns" using Cons.prems by (cases "prod_list ns = 0") auto
  have "offset (unravel ns (k mod prod_list ns)) (strides ns) = k mod prod_list ns"
    using Cons.IH pos by simp
  then show ?case by simp
qed

lemma offset_unravel_self:
  "k < prod_list s \<Longrightarrow> offset (unravel s k) (bstrides s s) = k"
proof (induction s arbitrary: k)
  case Nil
  then show ?case by (simp add: bstrides_def)
next
  case (Cons n ns)
  have pos: "0 < prod_list ns" using Cons.prems by (cases "prod_list ns = 0") auto
  have IH: "offset (unravel ns (k mod prod_list ns)) (bstrides ns ns) = k mod prod_list ns"
    using Cons.IH pos by simp
  have d: "n = 1 \<Longrightarrow> k div prod_list ns = 0" using Cons.prems by simp
  have e: "k div prod_list ns * prod_list ns + k mod prod_list ns = k" by simp
  have "offset (unravel (n # ns) k) (bstrides (n # ns) (n # ns))
        = k div prod_list ns * (if n = 1 then 0 else prod_list ns)
          + offset (unravel ns (k mod prod_list ns)) (bstrides ns ns)"
    by (simp add: bstrides_def)
  also have "\<dots> = k div prod_list ns * prod_list ns + k mod prod_list ns"
    using IH d by (cases "n = 1") simp_all
  finally show ?case using e by simp
qed

lemma broadcast_to_self: "wf_nd a \<Longrightarrow> broadcast_to a (shape a) = Inr a"
proof -
  assume wf: "wf_nd a"
  have "map (\<lambda>k. data a ! offset (unravel (shape a) k) (bstrides (shape a) (shape a)))
            [0..<prod_list (shape a)] = map (\<lambda>k. data a ! k) [0..<prod_list (shape a)]"
    by (rule map_cong) (auto simp: offset_unravel_self)
  also have "\<dots> = data a" using wf map_nth [of "data a"] by (simp add: wf_nd_def)
  finally show ?thesis by (simp add: broadcast_to_def broadcastable_refl)
qed

lemma length_positions [simp]: "length (positions a) = prod_list (vw_shape a)"
  by (simp add: positions_def)

lemma contents_simps [simp]:
  "shape (contents h a) = vw_shape a"
  "length (data (contents h a)) = prod_list (vw_shape a)"
  by (simp_all add: contents_def)

lemma wf_nd_contents [simp]: "wf_nd (contents h a)"
  by (simp add: wf_nd_def)

lemma positions_contiguous: "positions (contiguous addr s) = [0..<prod_list s]"
proof -
  have "map (\<lambda>k. 0 + offset (unravel s k) (strides s)) [0..<prod_list s]
        = map (\<lambda>k. k) [0..<prod_list s]"
    by (rule map_cong) (auto simp: offset_unravel_strides)
  then show ?thesis by (simp add: positions_def contiguous_def)
qed

lemma fold_upd_length [simp]:
  "length (fold (\<lambda>(p, x) buf. buf[p := x]) pxs buf) = length buf"
  by (induction pxs arbitrary: buf) auto

lemma fold_upd_nth:
  "distinct ps \<Longrightarrow> length xs = length ps \<Longrightarrow> q < length buf \<Longrightarrow>
   fold (\<lambda>(p, x) buf. buf[p := x]) (zip ps xs) buf ! q
     = (case map_of (zip ps xs) q of None \<Rightarrow> buf ! q | Some x \<Rightarrow> x)"
proof (induction ps arbitrary: xs buf)
  case Nil
  then show ?case by simp
next
  case (Cons p ps)
  then obtain x xs' where xs: "xs = x # xs'" by (cases xs) auto
  have len: "length xs' = length ps" using Cons.prems by (simp add: xs)
  have none: "map_of (zip ps xs') p = None"
    using Cons.prems(1) len by (simp add: map_of_zip_is_None)
  have IH: "fold (\<lambda>(p, x) buf. buf[p := x]) (zip ps xs') (buf[p := x]) ! q
     = (case map_of (zip ps xs') q of None \<Rightarrow> buf[p := x] ! q | Some x \<Rightarrow> x)"
    using Cons.IH [of xs' "buf[p := x]"] Cons.prems len by simp
  show ?case
  proof (cases "q = p")
    case True
    then show ?thesis using IH none Cons.prems(3) by (simp add: xs)
  next
    case False
    then show ?thesis using IH by (simp add: xs split: option.split)
  qed
qed

lemma fold_upd_nth_notin:
  "distinct ps \<Longrightarrow> length xs = length ps \<Longrightarrow> q < length buf \<Longrightarrow> q \<notin> set ps \<Longrightarrow>
   fold (\<lambda>(p, x) buf. buf[p := x]) (zip ps xs) buf ! q = buf ! q"
  by (simp add: fold_upd_nth map_of_zip_is_None [THEN iffD2])

lemma fold_upd_nth_in:
  "distinct ps \<Longrightarrow> length xs = length ps \<Longrightarrow> ps ! i < length buf \<Longrightarrow> i < length ps \<Longrightarrow>
   fold (\<lambda>(p, x) buf. buf[p := x]) (zip ps xs) buf ! (ps ! i) = xs ! i"
  by (simp add: fold_upd_nth map_of_zip_nth)

lemma store_length [simp]: "length (store h a xs) = length h"
  by (simp add: store_def)

lemma store_buf_length [simp]: "length (store h a xs ! b) = length (h ! b)"
  by (cases "b = vw_buf a"; cases "b < length h") (simp_all add: store_def list_update_beyond)

lemma valid_view_store [simp]: "valid_view (store h a xs) a' = valid_view h a'"
  by (simp add: valid_view_def)

lemma contents_store_other:
  "vw_buf a' \<noteq> vw_buf a \<Longrightarrow> contents (store h a xs) a' = contents h a'"
  by (simp add: contents_def store_def)

lemma contents_store_same:
  assumes v: "valid_view h a" and len: "length xs = prod_list (vw_shape a)"
  shows "contents (store h a xs) a = \<lparr>shape = vw_shape a, data = xs\<rparr>"
proof -
  let ?ps = "positions a"
  let ?B = "fold (\<lambda>(p, x) buf. buf[p := x]) (zip ?ps xs) (h ! vw_buf a)"
  have d: "distinct ?ps" and b: "vw_buf a < length h"
    and r: "\<And>p. p \<in> set ?ps \<Longrightarrow> p < length (h ! vw_buf a)"
    using v by (auto simp: valid_view_def list_all_iff)
  have "map (\<lambda>p. ?B ! p) ?ps = xs"
  proof (rule nth_equalityI)
    show "length (map (\<lambda>p. ?B ! p) ?ps) = length xs" using len by simp
  next
    fix i assume "i < length (map (\<lambda>p. ?B ! p) ?ps)"
    then have i: "i < length ?ps" by simp
    have "?B ! (?ps ! i) = (case map_of (zip ?ps xs) (?ps ! i) of
        None \<Rightarrow> (h ! vw_buf a) ! (?ps ! i) | Some x \<Rightarrow> x)"
      using d len i r by (intro fold_upd_nth) simp_all
    also have "map_of (zip ?ps xs) (?ps ! i) = Some (xs ! i)"
      using d len i by (intro map_of_zip_nth) simp_all
    finally show "map (\<lambda>p. ?B ! p) ?ps ! i = xs ! i" using i by simp
  qed
  then show ?thesis using b by (simp add: contents_def store_def)
qed

lemma store_store:
  assumes v: "valid_view h a" and len: "length xs = prod_list (vw_shape a)"
    "length ys = prod_list (vw_shape a)"
  shows "store (store h a xs) a ys = store h a ys"
proof -
  let ?ps = "positions a"
  let ?f = "\<lambda>zs buf. fold (\<lambda>(p, x) buf. buf[p := x]) (zip ?ps zs) buf"
  have d: "distinct ?ps" and b: "vw_buf a < length h"
    using v by (auto simp: valid_view_def)
  have "?f ys (?f xs (h ! vw_buf a)) = ?f ys (h ! vw_buf a)"
  proof (rule nth_equalityI)
    show "length (?f ys (?f xs (h ! vw_buf a))) = length (?f ys (h ! vw_buf a))" by simp
  next
    fix q assume "q < length (?f ys (?f xs (h ! vw_buf a)))"
    then have q: "q < length (h ! vw_buf a)" by simp
    show "?f ys (?f xs (h ! vw_buf a)) ! q = ?f ys (h ! vw_buf a) ! q"
    proof (cases "q \<in> set ?ps")
      case False
      then show ?thesis using d len q by (simp add: fold_upd_nth_notin)
    next
      case True
      then obtain i where i: "i < length ?ps" "q = ?ps ! i" by (auto simp: in_set_conv_nth)
      have lens: "length xs = length ?ps" "length ys = length ?ps" using len by simp_all
      have q': "?ps ! i < length (h ! vw_buf a)"
        "?ps ! i < length (?f xs (h ! vw_buf a))" using q i by simp_all
      have "?f ys (?f xs (h ! vw_buf a)) ! (?ps ! i) = ys ! i"
        using d lens(2) q'(2) i(1) by (rule fold_upd_nth_in)
      moreover have "?f ys (h ! vw_buf a) ! (?ps ! i) = ys ! i"
        using d lens(2) q'(1) i(1) by (rule fold_upd_nth_in)
      ultimately show ?thesis using i by simp
    qed
  qed
  then show ?thesis using b by (simp add: store_def)
qed

subsection \<open>The affine wrapper of prox\<close>

lemma inplace_scalar_contents:
  "valid_view h v \<Longrightarrow>
   contents (inplace_scalar f h v x) v
     = \<lparr>shape = vw_shape v, data = map (\<lambda>y. f y x) (data (contents h v))\<rparr>"
  by (simp add: inplace_scalar_def contents_store_same)

lemma inplace_array_same_shape:
  "vw_shape w = vw_shape v \<Longrightarrow>
   inplace_array f h v w = Inr (store h v (map2 f (data (contents h v)) (data (contents h w))))"
  using broadcast_to_self [of "contents h w"] by (simp add: inplace_array_def)

lemma v_hat_steps:
  assumes sh: "vw_shape (pf_b self) = vw_shape v" "vw_shape (pf_c self) = vw_shape v"
    and v: "valid_view h v"
    and na: "vw_buf v \<noteq> vw_buf (pf_b self)" "vw_buf v \<noteq> vw_buf (pf_c self)"
  shows "\<exists>h2. inplace_array (-) (inplace_scalar (*) h v rho) v (pf_c self) = Inr h2 \<and>
           inplace_array (-) (inplace_scalar (*) h2 v (pf_beta self / (rho + 2 * pf_gamma self)))
             v (pf_b self)
           = Inr (store h v (data (v_hat_spec self rho (contents h v) (contents h (pf_c self))
                                     (contents h (pf_b self)))))"
proof -
  let ?c = "pf_c self" and ?b = "pf_b self"
  let ?n = "prod_list (vw_shape v)"
  let ?k = "pf_beta self / (rho + 2 * pf_gamma self)"
  let ?x0 = "data (contents h v)"
  let ?x1 = "map (\<lambda>y. y * rho) ?x0"
  let ?h1 = "store h v ?x1"
  let ?x2 = "map2 (-) ?x1 (data (contents h ?c))"
  let ?h2 = "store h v ?x2"
  let ?x3 = "map (\<lambda>y. y * ?k) ?x2"
  let ?h3 = "store h v ?x3"
  let ?x4 = "map2 (-) ?x3 (data (contents h ?b))"
  have l0: "length ?x0 = ?n" by simp
  have lc: "length (data (contents h ?c)) = ?n" "length (data (contents h ?b)) = ?n"
    using sh by simp_all
  have l1: "length ?x1 = ?n" by simp
  have l2: "length ?x2 = ?n" using lc by simp
  have l3: "length ?x3 = ?n" using lc by simp
  have h1: "inplace_scalar (*) h v rho = ?h1" unfolding inplace_scalar_def ..
  have c1: "contents ?h1 v = \<lparr>shape = vw_shape v, data = ?x1\<rparr>"
    using v l1 by (rule contents_store_same)
  have cc1: "contents ?h1 ?c = contents h ?c"
    using na(2) by (simp add: contents_store_other)
  have e2: "store ?h1 v (map2 (-) (data (contents ?h1 v)) (data (contents ?h1 ?c))) = ?h2"
    unfolding c1 cc1 ndarray.select_convs using v l1 l2 by (rule store_store)
  have s2: "inplace_array (-) ?h1 v ?c = Inr ?h2"
    using inplace_array_same_shape [OF sh(2), of "(-)" ?h1] e2 by simp
  have c2: "contents ?h2 v = \<lparr>shape = vw_shape v, data = ?x2\<rparr>"
    using v l2 by (rule contents_store_same)
  have h3: "inplace_scalar (*) ?h2 v ?k = ?h3"
    unfolding inplace_scalar_def c2 ndarray.select_convs using v l2 l3 by (rule store_store)
  have c3: "contents ?h3 v = \<lparr>shape = vw_shape v, data = ?x3\<rparr>"
    using v l3 by (rule contents_store_same)
  have cb3: "contents ?h3 ?b = contents h ?b"
    using na(1) by (simp add: contents_store_other)
  have l4: "length ?x4 = ?n" using lc by simp
  have e4: "store ?h3 v (map2 (-) (data (contents ?h3 v)) (data (contents ?h3 ?b)))
            = store h v ?x4"
    unfolding c3 cb3 ndarray.select_convs using v l3 l4 by (rule store_store)
  have s4: "inplace_array (-) ?h3 v ?b = Inr (store h v ?x4)"
    using inplace_array_same_shape [OF sh(1), of "(-)" ?h3] e4 by simp
  have "?x4 = data (v_hat_spec self rho (contents h v) (contents h ?c) (contents h ?b))"
    using lc by (intro nth_equalityI) (simp_all add: v_hat_spec_def)
  then have s4': "inplace_array (-) ?h3 v ?b
      = Inr (store h v (data (v_hat_spec self rho (contents h v) (contents h ?c) (contents h ?b))))"
    using s4 by simp
  show ?thesis
    unfolding h1 using s2 h3 s4' by (intro exI [of _ ?h2] conjI) simp_all
qed

lemma x_steps:
  assumes sh: "vw_shape (pf_b self) = vw_shape x" and x: "valid_view h x"
  shows "\<exists>h6. inplace_array (+) h x (pf_b self) = Inr h6 \<and>
           inplace_scalar (\<lambda>y z. y / z) h6 x (pf_beta self)
             = store h x (data (x_spec self (contents h x) (contents h (pf_b self))))"
proof -
  let ?b = "pf_b self"
  let ?n = "prod_list (vw_shape x)"
  let ?x1 = "map2 (+) (data (contents h x)) (data (contents h ?b))"
  let ?h1 = "store h x ?x1"
  let ?x2 = "map (\<lambda>y. y / pf_beta self) ?x1"
  have lb: "length (data (contents h ?b)) = ?n" using sh by simp
  have l1: "length ?x1 = ?n" using lb by simp
  have l2: "length ?x2 = ?n" using lb by simp
  have s: "inplace_array (+) h x ?b = Inr ?h1"
    using sh by (rule inplace_array_same_shape)
  have c1: "contents ?h1 x = \<lparr>shape = vw_shape x, data = ?x1\<rparr>"
    using x l1 by (rule contents_store_same)
  have d: "inplace_scalar (\<lambda>y z. y / z) ?h1 x (pf_beta self) = store h x ?x2"
    unfolding inplace_scalar_def c1 ndarray.select_convs using x l1 l2 by (rule store_store)
  have "?x2 = data (x_spec self (contents h x) (contents h ?b))"
    using lb by (intro nth_equalityI) (simp_all add: x_spec_def)
  then have "inplace_scalar (\<lambda>y z. y / z) ?h1 x (pf_beta self)
      = store h x (data (x_spec self (contents h x) (contents h ?b)))"
    using d by simp
  with s show ?thesis by (intro exI [of _ ?h1] conjI)
qed

lemma prox_result:
  assumes sh: "vw_shape (pf_b self) = pf_shape self" "vw_shape (pf_c self) = pf_shape self"
    and v: "valid_view h v" "vw_shape v = pf_shape self"
    and na: "vw_buf v \<noteq> vw_buf (pf_b self)" "vw_buf v \<noteq> vw_buf (pf_c self)"
    and nz: "pf_alpha self * (pf_beta self)\<^sup>2 \<noteq> 0" "rho + 2 * pf_gamma self \<noteq> 0"
    and core: "core (rho_hat_spec self rho) v
                 (store h v (data (v_hat_spec self rho (contents h v) (contents h (pf_c self))
                                     (contents h (pf_b self)))))
               = Inr (xhat, h5)"
    and x: "valid_view h5 xhat" "vw_shape xhat = pf_shape self"
  shows "prox self core rho v h
         = Inr (xhat, store h5 xhat (data (x_spec self (contents h5 xhat)
                                             (contents h5 (pf_b self)))))"
proof -
  obtain h2 where
    s2: "inplace_array (-) (inplace_scalar (*) h v rho) v (pf_c self) = Inr h2" and
    s4: "inplace_array (-) (inplace_scalar (*) h2 v (pf_beta self / (rho + 2 * pf_gamma self)))
           v (pf_b self)
         = Inr (store h v (data (v_hat_spec self rho (contents h v) (contents h (pf_c self))
                                   (contents h (pf_b self)))))"
    using v_hat_steps [of self v h rho] sh v na by auto
  obtain h6 where
    s6: "inplace_array (+) h5 xhat (pf_b self) = Inr h6" and
    s7: "inplace_scalar (\<lambda>y z. y / z) h6 xhat (pf_beta self)
           = store h5 xhat (data (x_spec self (contents h5 xhat) (contents h5 (pf_b self))))"
    using x_steps [of self xhat h5] sh x by auto
  show ?thesis
    using nz s2 s4 s6 s7 core
    by (simp add: prox_def Let_def rho_hat_spec_def)
qed

subsection \<open>prox on arrays that share no buffer with b and c\<close>

lemma v_hat_spec_shape:
  "shape (v_hat_spec self rho v c b) = shape v"
  "length (data (v_hat_spec self rho v c b)) = length (data v)"
  by (simp_all add: v_hat_spec_def)

lemma contents_store_v_hat:
  assumes "valid_view h v"
  shows "contents (store h v (data (v_hat_spec self rho (contents h v) c b))) v
         = v_hat_spec self rho (contents h v) c b"
proof -
  have "contents (store h v (data (v_hat_spec self rho (contents h v) c b))) v
        = \<lparr>shape = vw_shape v, data = data (v_hat_spec self rho (contents h v) c b)\<rparr>"
    using assms by (rule contents_store_same) (simp add: v_hat_spec_shape)
  then show ?thesis by (simp add: v_hat_spec_def)
qed

lemma contents_store_x:
  assumes "valid_view h x"
  shows "contents (store h x (data (x_spec self (contents h x) b))) x
         = x_spec self (contents h x) b"
proof -
  have "contents (store h x (data (x_spec self (contents h x) b))) x
        = \<lparr>shape = vw_shape x, data = data (x_spec self (contents h x) b)\<rparr>"
    using assms by (rule contents_store_same) (simp add: x_spec_def)
  then show ?thesis by (simp add: x_spec_def)
qed

lemma arr_positions [simp]:
  "positions arr0 = [0, 1]" "positions arr1 = [0, 1]" "positions arr2 = [0, 1]"
  by (simp_all add: arr0_def arr1_def arr2_def positions_contiguous upt_rec)

lemma arr_simps [simp]:
  "vw_buf arr0 = 0" "vw_buf arr1 = 1" "vw_buf arr2 = 2"
  "vw_shape arr0 = [2]" "vw_shape arr1 = [2]" "vw_shape arr2 = [2]"
  by (simp_all add: arr0_def arr1_def arr2_def contiguous_def)

lemma broadcast_to_2 [simp]:
  "broadcast_to \<lparr>shape = [2], data = [x, y]\<rparr> [2] = Inr \<lparr>shape = [2], data = [x, y]\<rparr>"
  using broadcast_to_self [of "\<lparr>shape = [2], data = [x, y]\<rparr>"] by (simp add: wf_nd_def)

lemmas prox_eval =
  prox_def Let_def inplace_scalar_def inplace_array_def contents_def store_def
  v_hat_spec_def x_spec_def rho_hat_spec_def valid_view_def upt_rec

text \<open>
  Claim C1, with the condition on sharing that it needs. The wrapper has \<open>alpha > 0\<close>,
  \<open>beta \<noteq> 0\<close>, \<open>gamma \<ge> 0\<close> and arrays \<open>b\<close> and \<open>c\<close> of the operator's shape;
  \<open>rho > 0\<close>; \<open>v\<close> is a writable array of the operator's shape whose buffer is neither the
  buffer of \<open>b\<close> nor that of \<open>c\<close>. Then \<^verbatim>\<open>prox(rho, v)\<close> calls the core map with
  \<open>rho_hat = (rho + 2*gamma) / (alpha*beta\<^sup>2)\<close> on the array \<open>v\<close>, which holds
  \<open>v_hat = ((v*rho) - c) * (beta / (rho + 2*gamma)) - b\<close> at that moment; when the core
  returns a writable array \<open>x_hat\<close> of the operator's shape, \<^verbatim>\<open>prox\<close> returns that array
  object, holding \<open>(x_hat + b) / beta\<close>, with \<open>b\<close> as it is when the core has returned. The
  core map is an arbitrary function of \<open>rho_hat\<close>, the array and the heap. Elements are
  real numbers.
\<close>

theorem prox_formula:
  assumes sh: "vw_shape (pf_b self) = pf_shape self" "vw_shape (pf_c self) = pf_shape self"
    and v: "valid_view h v" "vw_shape v = pf_shape self"
    and na: "vw_buf v \<noteq> vw_buf (pf_b self)" "vw_buf v \<noteq> vw_buf (pf_c self)"
    and pos: "0 < pf_alpha self" "pf_beta self \<noteq> 0" "0 \<le> pf_gamma self" "0 < rho"
    and core: "core (rho_hat_spec self rho) v
                 (store h v (data (v_hat_spec self rho (contents h v) (contents h (pf_c self))
                                     (contents h (pf_b self)))))
               = Inr (xhat, h5)"
    and x: "valid_view h5 xhat" "vw_shape xhat = pf_shape self"
  shows "contents (store h v (data (v_hat_spec self rho (contents h v) (contents h (pf_c self))
                                      (contents h (pf_b self))))) v
           = v_hat_spec self rho (contents h v) (contents h (pf_c self)) (contents h (pf_b self))
         \<and> (\<exists>hf. prox self core rho v h = Inr (xhat, hf) \<and>
                contents hf xhat = x_spec self (contents h5 xhat) (contents h5 (pf_b self)))"
proof -
  have nz: "pf_alpha self * (pf_beta self)\<^sup>2 \<noteq> 0" "rho + 2 * pf_gamma self \<noteq> 0"
    using pos by auto
  have "prox self core rho v h
        = Inr (xhat, store h5 xhat (data (x_spec self (contents h5 xhat)
                                            (contents h5 (pf_b self)))))"
    using sh v na nz core x by (rule prox_result)
  then show ?thesis
    using v(1) x(1) by (simp add: contents_store_v_hat contents_store_x)
qed

text \<open>
  The theorem at \<open>alpha = beta = 2\<close>, \<open>gamma = 1\<close>, \<open>b = [1, 1]\<close>, \<open>c = [1, 0]\<close>,
  \<open>rho = 2\<close>, \<open>v = [3, 4]\<close> and the core that returns its argument: \<open>v_hat = [3/2, 3]\<close>
  and the result is \<open>[5/4, 2]\<close>.
\<close>

theorem prox_formula_witness:
  "vw_shape (pf_b ex_pf) = pf_shape ex_pf \<and> vw_shape (pf_c ex_pf) = pf_shape ex_pf \<and>
   valid_view ex_heap arr0 \<and> vw_shape arr0 = pf_shape ex_pf \<and>
   vw_buf arr0 \<noteq> vw_buf (pf_b ex_pf) \<and> vw_buf arr0 \<noteq> vw_buf (pf_c ex_pf) \<and>
   0 < pf_alpha ex_pf \<and> pf_beta ex_pf \<noteq> 0 \<and> 0 \<le> pf_gamma ex_pf \<and> (0::real) < 2 \<and>
   core_in_place (rho_hat_spec ex_pf 2) arr0 [[3/2, 3], [1, 1], [1, 0]]
     = Inr (arr0, [[3/2, 3], [1, 1], [1, 0]]) \<and>
   (\<exists>hf. prox ex_pf core_in_place 2 arr0 ex_heap = Inr (arr0, hf) \<and>
          contents hf arr0 = \<lparr>shape = [2], data = [5/4, 2]\<rparr>)"
proof -
  let ?h4 = "store ex_heap arr0
               (data (v_hat_spec ex_pf 2 (contents ex_heap arr0) (contents ex_heap (pf_c ex_pf))
                        (contents ex_heap (pf_b ex_pf))))"
  have h4: "?h4 = [[3/2, 3], [1, 1], [1, 0]]"
    by (simp add: ex_pf_def ex_heap_def prox_eval)
  have sh: "vw_shape (pf_b ex_pf) = pf_shape ex_pf" "vw_shape (pf_c ex_pf) = pf_shape ex_pf"
    by (simp_all add: ex_pf_def)
  have v: "valid_view ex_heap arr0" "vw_shape arr0 = pf_shape ex_pf"
    by (simp_all add: ex_pf_def ex_heap_def valid_view_def)
  have na: "vw_buf arr0 \<noteq> vw_buf (pf_b ex_pf)" "vw_buf arr0 \<noteq> vw_buf (pf_c ex_pf)"
    by (simp_all add: ex_pf_def)
  have pos: "0 < pf_alpha ex_pf" "pf_beta ex_pf \<noteq> 0" "0 \<le> pf_gamma ex_pf" "(0::real) < 2"
    by (simp_all add: ex_pf_def)
  have core: "core_in_place (rho_hat_spec ex_pf 2) arr0 ?h4 = Inr (arr0, ?h4)"
    by (simp add: core_in_place_def)
  have x: "valid_view ?h4 arr0" "vw_shape arr0 = pf_shape ex_pf"
    using v by simp_all
  have xs: "x_spec ex_pf (contents ?h4 arr0) (contents ?h4 (pf_b ex_pf))
            = \<lparr>shape = [2], data = [5/4, 2]\<rparr>"
    unfolding h4 by (simp add: ex_pf_def prox_eval)
  show ?thesis
    using prox_formula [where self = ex_pf and h = ex_heap and v = arr0 and rho = 2
        and core = core_in_place and xhat = arr0 and ?h5.0 = "?h4",
        OF sh v na pos core x] sh v na pos core
    unfolding xs unfolding h4 by simp
qed

text \<open>
  Claim C1 as stated fails when the caller's array is the array that the wrapper holds as
  \<open>b\<close> (\<^verbatim>\<open>__init__\<close> keeps the array object it is given): with \<open>alpha = beta = 1\<close>,
  \<open>gamma = 0\<close>, \<open>c = 0\<close>, \<open>rho = 1\<close>, \<open>v = b = [3, 4]\<close> and the core that returns its
  argument, the formulas give \<open>v_hat = [0, 0]\<close>, \<open>x_hat = [0, 0]\<close> and the result
  \<open>(x_hat + b) / beta = [3, 4]\<close>; \<^verbatim>\<open>v -= self.b\<close> sets both \<open>v\<close> and \<open>b\<close> to zero, and
  \<^verbatim>\<open>prox\<close> returns \<open>[0, 0]\<close>.
\<close>

theorem prox_aliasing_counterexample:
  "0 < pf_alpha ex_pf_alias \<and> pf_beta ex_pf_alias \<noteq> 0 \<and> 0 \<le> pf_gamma ex_pf_alias \<and>
   vw_shape arr0 = pf_shape ex_pf_alias \<and> valid_view ex_heap_alias arr0 \<and>
   pf_b ex_pf_alias = arr0 \<and>
   contents ex_heap_alias arr0 = \<lparr>shape = [2], data = [3, 4]\<rparr> \<and>
   v_hat_spec ex_pf_alias 1 (contents ex_heap_alias arr0)
       (contents ex_heap_alias (pf_c ex_pf_alias)) (contents ex_heap_alias (pf_b ex_pf_alias))
     = \<lparr>shape = [2], data = [0, 0]\<rparr> \<and>
   (\<forall>h. core_in_place (rho_hat_spec ex_pf_alias 1) arr0 h = Inr (arr0, h)) \<and>
   x_spec ex_pf_alias \<lparr>shape = [2], data = [0, 0]\<rparr> (contents ex_heap_alias (pf_b ex_pf_alias))
     = \<lparr>shape = [2], data = [3, 4]\<rparr> \<and>
   (\<exists>hf. prox ex_pf_alias core_in_place 1 arr0 ex_heap_alias = Inr (arr0, hf) \<and>
          contents hf arr0 = \<lparr>shape = [2], data = [0, 0]\<rparr>)"
  by (simp add: ex_pf_alias_def ex_heap_alias_def core_in_place_def prox_eval)

subsection \<open>prox updates its argument in place\<close>






text \<open>
  The result of the core can be a view of the buffer of \<open>v\<close>. Here the buffer is
  \<open>[3, 4, 7]\<close>, \<open>v\<close> is its first two elements and the core returns the last two: after
  the call the buffer is \<open>[3/2, 2, 4]\<close>, so that \<open>v\<close> holds one element of \<open>v_hat\<close> and
  one of the result.
\<close>

lemma prox_view_example:
  "prox ex_pf core_shifted 2 arr0 [[3, 4, 7], [1, 1], [1, 0]]
     = Inr (arr0\<lparr>vw_off := 1\<rparr>, [[3/2, 2, 4], [1, 1], [1, 0]])"
proof -
  have o: "vw_off arr0 = 0" by (simp add: arr0_def contiguous_def)
  have p: "positions (arr0\<lparr>vw_off := Suc 0\<rparr>) = [1, 2]"
    by (simp add: positions_def arr0_def contiguous_def upt_rec)
  show ?thesis
    by (simp add: ex_pf_def core_shifted_def prox_eval o p)
qed

subsection \<open>The constructor of ProxFn\<close>

lemma contents_contiguous:
  "addr < length h \<Longrightarrow> length (h ! addr) = prod_list s \<Longrightarrow>
   contents h (contiguous addr s) = \<lparr>shape = s, data = h ! addr\<rparr>"
proof -
  assume a: "addr < length h" and l: "length (h ! addr) = prod_list s"
  have "map (\<lambda>p. h ! addr ! p) [0..<prod_list s] = h ! addr"
    using map_nth [of "h ! addr"] l by simp
  then show ?thesis
    by (simp add: contents_def positions_contiguous) (simp add: contiguous_def)
qed

lemma contents_append:
  "vw_buf a < length h \<Longrightarrow> contents (h @ bs) a = contents h a"
  by (simp add: contents_def nth_append)

lemma materialize_shape: "scalar_or_shape s x \<Longrightarrow> vw_shape (fst (materialize h s x)) = s"
  by (cases x) (simp_all add: alloc_def contiguous_def)

lemma materialize_heap: "\<exists>bs. snd (materialize h s x) = h @ bs"
  by (cases x) (simp_all add: alloc_def)

lemma materialize_Scalar:
  "contents (snd (materialize h s (Scalar x))) (fst (materialize h s (Scalar x))) = full s x"
  by (simp add: alloc_def contents_contiguous full_def)

lemma ProxFn_init_success:
  "(ProxFn_init h s alpha beta b c gamma d = Inr (self, h')) =
     (scalar_or_shape s b \<and> scalar_or_shape s c \<and>
      nonnegative_scalar alpha \<and> nonnegative_scalar gamma \<and>
      isscalar beta \<and> isscalar d \<and>
      self = \<lparr>pf_shape = s, pf_alpha = float_of h alpha, pf_beta = float_of h beta,
              pf_b = fst (materialize h s b),
              pf_c = fst (materialize (snd (materialize h s b)) s c),
              pf_gamma = float_of h gamma, pf_d = float_of h d\<rparr> \<and>
      h' = snd (materialize (snd (materialize h s b)) s c))"
  by (cases alpha; cases beta; cases b; cases c; cases gamma; cases d)
     (auto simp: ProxFn_init_def alloc_def)

lemma ProxFn_init_error:
  "\<not> scalar_or_shape s b \<Longrightarrow>
     ProxFn_init h s alpha beta b c gamma d = Inl (Exception ''Invalid dimensions of b.'')"
  "scalar_or_shape s b \<Longrightarrow> \<not> scalar_or_shape s c \<Longrightarrow>
     ProxFn_init h s alpha beta b c gamma d = Inl (Exception ''Invalid dimensions of c.'')"
  by (cases b; cases c; simp add: ProxFn_init_def)+

text \<open>
  Claim C8, as amended. The constructor raises for an \<open>alpha\<close> or \<open>gamma\<close> that is not a
  scalar or is negative and for a \<open>beta\<close> or \<open>d\<close> that is not a scalar. It accepts \<open>b\<close> and
  \<open>c\<close> exactly when each is a scalar or an array of exactly the operator's shape, and raises
  \<open>Invalid dimensions\<close> for any other shape. It stores them at that shape: a scalar expanded
  to a new full tensor, an array as the object it is. The arrays that exist before the
  call keep their contents.
\<close>

theorem ProxFn_init_checks:
  "((\<exists>self h'. ProxFn_init h s alpha beta b c gamma d = Inr (self, h')) \<longleftrightarrow>
      scalar_or_shape s b \<and> scalar_or_shape s c \<and>
      nonnegative_scalar alpha \<and> nonnegative_scalar gamma \<and> isscalar beta \<and> isscalar d) \<and>
   (\<not> scalar_or_shape s b \<longrightarrow>
      ProxFn_init h s alpha beta b c gamma d = Inl (Exception ''Invalid dimensions of b.'')) \<and>
   (scalar_or_shape s b \<and> \<not> scalar_or_shape s c \<longrightarrow>
      ProxFn_init h s alpha beta b c gamma d = Inl (Exception ''Invalid dimensions of c.'')) \<and>
   (ProxFn_init h s alpha beta b c gamma d = Inr (self, h') \<longrightarrow>
      vw_shape (pf_b self) = s \<and> vw_shape (pf_c self) = s \<and>
      (\<forall>x. b = Scalar x \<longrightarrow> contents h' (pf_b self) = full s x) \<and>
      (\<forall>x. c = Scalar x \<longrightarrow> contents h' (pf_c self) = full s x) \<and>
      (\<forall>a. b = Arr a \<longrightarrow> pf_b self = a) \<and>
      (\<forall>a. c = Arr a \<longrightarrow> pf_c self = a) \<and>
      (\<forall>a::view. vw_buf a < length h \<longrightarrow> contents h' a = contents h a))"
proof (intro conjI impI)
  show "(\<exists>self h'. ProxFn_init h s alpha beta b c gamma d = Inr (self, h')) \<longleftrightarrow>
      scalar_or_shape s b \<and> scalar_or_shape s c \<and>
      nonnegative_scalar alpha \<and> nonnegative_scalar gamma \<and> isscalar beta \<and> isscalar d"
    by (simp add: ProxFn_init_success)
next
  assume "\<not> scalar_or_shape s b"
  then show "ProxFn_init h s alpha beta b c gamma d = Inl (Exception ''Invalid dimensions of b.'')"
    by (rule ProxFn_init_error)
next
  assume "scalar_or_shape s b \<and> \<not> scalar_or_shape s c"
  then show "ProxFn_init h s alpha beta b c gamma d = Inl (Exception ''Invalid dimensions of c.'')"
    by (simp add: ProxFn_init_error)
next
  assume i: "ProxFn_init h s alpha beta b c gamma d = Inr (self, h')"
  then have ok: "scalar_or_shape s b" "scalar_or_shape s c"
    and b: "pf_b self = fst (materialize h s b)"
    and c: "pf_c self = fst (materialize (snd (materialize h s b)) s c)"
    and h': "h' = snd (materialize (snd (materialize h s b)) s c)"
    by (simp_all add: ProxFn_init_success)
  show "vw_shape (pf_b self) = s" using ok b by (simp add: materialize_shape)
  show "vw_shape (pf_c self) = s" using ok c by (simp add: materialize_shape)
  show "\<forall>x. b = Scalar x \<longrightarrow> contents h' (pf_b self) = full s x"
  proof (intro allI impI)
    fix x assume bx: "b = Scalar x"
    obtain bs where bs: "h' = (h @ [data (full s x)]) @ bs"
      using materialize_heap [of "snd (materialize h s b)" s c] h' bx by (auto simp: alloc_def)
    have "contents ((h @ [data (full s x)]) @ bs) (contiguous (length h) s)
          = contents (h @ [data (full s x)]) (contiguous (length h) s)"
      by (rule contents_append) (simp add: contiguous_def)
    moreover have "pf_b self = contiguous (length h) s"
      unfolding b bx by (simp add: alloc_def)
    ultimately have "contents h' (pf_b self)
          = contents (h @ [data (full s x)]) (contiguous (length h) s)"
      unfolding bs by simp
    then show "contents h' (pf_b self) = full s x"
      by (simp add: contents_contiguous full_def)
  qed
  show "\<forall>x. c = Scalar x \<longrightarrow> contents h' (pf_c self) = full s x"
    using c h' materialize_Scalar by auto
  show "\<forall>a. b = Arr a \<longrightarrow> pf_b self = a" using b by simp
  show "\<forall>a. c = Arr a \<longrightarrow> pf_c self = a" using c by simp
  show "\<forall>a::view. vw_buf a < length h \<longrightarrow> contents h' a = contents h a"
  proof (intro allI impI)
    fix a :: view assume a: "vw_buf a < length h"
    obtain bs1 where 1: "snd (materialize h s b) = h @ bs1"
      using materialize_heap by blast
    obtain bs2 where 2: "h' = (h @ bs1) @ bs2"
      using materialize_heap [of "h @ bs1" s c] h' 1 by auto
    show "contents h' a = contents h a"
      unfolding 2 using a by (simp add: contents_append del: append_assoc)
  qed
qed

text \<open>
  The theorem at the operator shape \<open>[2]\<close>, \<open>b = 1\<close> and \<open>c\<close> the array \<open>arr2\<close>, and at an
  array of shape \<open>[1]\<close> given as \<open>b\<close> and as \<open>c\<close>.
\<close>

theorem ProxFn_init_checks_witness:
  "ProxFn_init ex_heap [2] (Scalar 2) (Scalar 2) (Scalar 1) (Arr arr2) (Scalar 1) (Scalar 0)
     = Inr (ex_pf\<lparr>pf_b := contiguous 3 [2]\<rparr>, ex_heap @ [[1, 1]]) \<and>
   scalar_or_shape [2] (Scalar 1) \<and> scalar_or_shape [2] (Arr arr2) \<and>
   vw_buf arr0 < length ex_heap \<and>
   vw_shape (contiguous 3 [2]) = [2] \<and>
   contents (ex_heap @ [[1, 1]]) (contiguous 3 [2]) = full [2] 1 \<and>
   pf_c (ex_pf\<lparr>pf_b := contiguous 3 [2]\<rparr>) = arr2 \<and>
   contents (ex_heap @ [[1, 1]]) arr0 = contents ex_heap arr0 \<and>
   \<not> scalar_or_shape [2] (Arr (contiguous 0 [1])) \<and>
   ProxFn_init ex_heap [2] (Scalar 2) (Scalar 2) (Arr (contiguous 0 [1])) (Arr arr2)
       (Scalar 1) (Scalar 0) = Inl (Exception ''Invalid dimensions of b.'') \<and>
   ProxFn_init ex_heap [2] (Scalar 2) (Scalar 2) (Scalar 1) (Arr (contiguous 0 [1]))
       (Scalar 1) (Scalar 0) = Inl (Exception ''Invalid dimensions of c.'')"
proof -
  have i: "ProxFn_init ex_heap [2] (Scalar 2) (Scalar 2) (Scalar 1) (Arr arr2) (Scalar 1) (Scalar 0)
     = Inr (ex_pf\<lparr>pf_b := contiguous 3 [2]\<rparr>, ex_heap @ [[1, 1]])"
    by (simp add: ProxFn_init_def ex_pf_def ex_heap_def full_def alloc_def arr2_def
        contiguous_def numeral_2_eq_2 numeral_3_eq_3)
  have s: "scalar_or_shape [2] (Scalar 1)" "scalar_or_shape [2] (Arr arr2)"
    "\<not> scalar_or_shape [2] (Arr (contiguous 0 [1]))" "vw_buf arr0 < length ex_heap"
    by (simp_all add: arr2_def arr0_def contiguous_def ex_heap_def)
  show ?thesis
    using i s
      ProxFn_init_checks [of ex_heap "[2]" "Scalar 2" "Scalar 2" "Scalar 1"
        "Arr arr2" "Scalar 1" "Scalar 0" "ex_pf\<lparr>pf_b := contiguous 3 [2]\<rparr>" "ex_heap @ [[1, 1]]"]
      ProxFn_init_checks [of ex_heap "[2]" "Scalar 2" "Scalar 2" "Arr (contiguous 0 [1])"
        "Arr arr2" "Scalar 1" "Scalar 0"]
      ProxFn_init_checks [of ex_heap "[2]" "Scalar 2" "Scalar 2" "Scalar 1"
        "Arr (contiguous 0 [1])" "Scalar 1" "Scalar 0"]
    by simp
qed

text \<open>
  Claim C8 as stated fails: an array \<open>b\<close> of shape \<open>[1]\<close> is broadcastable to the operator's
  shape \<open>[2]\<close>, and the constructor rejects it.
\<close>

theorem ProxFn_init_broadcastable_counterexample:
  "broadcastable (vw_shape (contiguous 0 [1])) [2] \<and>
   ProxFn_init [[5]] [2] (Scalar 1) (Scalar 1) (Arr (contiguous 0 [1])) (Scalar 0)
     (Scalar 0) (Scalar 0) = Inl (Exception ''Invalid dimensions of b.'')"
  by (simp add: broadcastable_def ProxFn_init_def contiguous_def)

subsection \<open>The generated prox kernel\<close>

text \<open>
  Claim C10. When \<open>b\<close> or \<open>c\<close> is not identically zero, \<^verbatim>\<open>cuda_additional_buffers()\<close> is
  not empty and \<^verbatim>\<open>gen_cuda_code\<close> raises while it registers the buffers; it completes
  exactly for the wrappers whose \<open>b\<close> and \<open>c\<close> are both identically zero.
\<close>

theorem gen_cuda_code_raises:
  "(\<not> all_zero (contents h (pf_b self)) \<or> \<not> all_zero (contents h (pf_c self)) \<longrightarrow>
      cuda_additional_buffers h self \<noteq> [] \<and> gen_cuda_code h self = Inl AttributeError) \<and>
   ((\<exists>k. gen_cuda_code h self = Inr k) \<longleftrightarrow>
      all_zero (contents h (pf_b self)) \<and> all_zero (contents h (pf_c self)))"
  by (auto simp: gen_cuda_code_def cuda_additional_buffers_def)

lemma ex_1_contents:
  "contents ex_heap_1 (contiguous 0 [Suc 0]) = \<lparr>shape = [1], data = [1]\<rparr>"
  "contents ex_heap_1 (contiguous (Suc 0) [Suc 0]) = \<lparr>shape = [1], data = [0]\<rparr>"
  by (simp_all add: contents_contiguous ex_heap_1_def)

text \<open>
  The theorem at a wrapper with \<open>b = 1\<close>, \<open>c = 0\<close> and at one with \<open>b = c = 0\<close>.
\<close>

theorem gen_cuda_code_raises_witness:
  "\<not> all_zero (contents ex_heap_1 (pf_b ex_pf_b)) \<and>
   cuda_additional_buffers ex_heap_1 ex_pf_b \<noteq> [] \<and>
   gen_cuda_code ex_heap_1 ex_pf_b = Inl AttributeError \<and>
   all_zero (contents ex_heap_1 (pf_b ex_pf_0)) \<and> all_zero (contents ex_heap_1 (pf_c ex_pf_0)) \<and>
   (\<exists>k. gen_cuda_code ex_heap_1 ex_pf_0 = Inr k)"
proof -
  have b: "\<not> all_zero (contents ex_heap_1 (pf_b ex_pf_b))"
    by (simp add: ex_pf_b_def all_zero_def ex_1_contents)
  have z: "all_zero (contents ex_heap_1 (pf_b ex_pf_0))"
    "all_zero (contents ex_heap_1 (pf_c ex_pf_0))"
    by (simp_all add: ex_pf_0_def all_zero_def ex_1_contents)
  show ?thesis
    using b z gen_cuda_code_raises [of ex_heap_1 ex_pf_b] gen_cuda_code_raises [of ex_heap_1 ex_pf_0]
    by blast
qed

text \<open>
  The syntax trees are the texts that the source builds: the text of a tree is the text of
  the template with its fragments, up to spaces, for every format \<open>fmt\<close> of the numbers
  and every index text \<open>ix\<close>. In the source the index of \<open>v\<close> is \<^verbatim>\<open>idx[0]\<close> or the
  text of \<^verbatim>\<open>sub2ind(idx, shape)\<close>, and the index of \<open>b\<close> and of \<open>c\<close> is the text of the
  Python list \<^verbatim>\<open>idx\<close> itself (\<^verbatim>\<open>ccode % locals()\<close> inside the lambda), which is not a C
  expression; \<open>eval_cexp\<close> reads every \<open>Load\<close> as the element at the index the expression
  is generated for.
\<close>

lemma render_gen_v:
  "no_spaces (render fmt ix (gen_v argnames self)) = no_spaces (gen_v_text fmt ix argnames self)"
  by (simp add: gen_v_def gen_v_text_def no_spaces_def Let_def ccode_def bcode1_def mul_beta_def
      plus_2gamma_def rho_plus_2gamma_def)

lemma render_gen_rho_hat:
  "no_spaces (render fmt ix (gen_rho_hat self)) = no_spaces (rho_hat_text fmt self)"
  by (simp add: gen_rho_hat_def rho_hat_text_def no_spaces_def div_alpha_beta_s_def
      plus_2gamma_def rho_plus_2gamma_def)

text \<open>
  Claim C2 at a wrapper with \<open>b = 1\<close>, \<open>c = 0\<close>, \<open>alpha = beta = 1\<close>, \<open>gamma = 0\<close>:
  \<^verbatim>\<open>gen_cuda_code\<close> raises and emits no expression, where the claim has an expression with
  the \<open>b\<close> term. The template of \<^verbatim>\<open>gen_v\<close> is never filled with a \<open>b\<close> term, since the
  local list \<^verbatim>\<open>argnames\<close> stays empty; given the buffer name that the loop was to
  collect, and with the index of \<open>b\<close> read as the element's index, it puts the \<open>b\<close> term
  inside the divisor: at \<open>rho = 2\<close>, \<open>v = 3\<close> it has the value \<open>(3*2) / (2 - 1) = 6\<close>, where
  the host computes \<open>v_hat = (3*2 - 0) * (1/2) - 1 = 2\<close>.
\<close>

theorem gen_cuda_code_b_term:
  "gen_cuda_code ex_heap_1 ex_pf_b = Inl AttributeError \<and>
   map fst (cuda_additional_buffers ex_heap_1 ex_pf_b) = [''b''] \<and>
   eval_cexp 2 ex_buf (gen_v [''b''] ex_pf_b) = Some 6 \<and>
   data (v_hat_spec ex_pf_b 2 \<lparr>shape = [1], data = [ex_buf ''v'']\<rparr>
           (contents ex_heap_1 (pf_c ex_pf_b)) (contents ex_heap_1 (pf_b ex_pf_b))) = [2]"
  by (simp add: gen_cuda_code_def cuda_additional_buffers_def ex_pf_b_def all_zero_def
      gen_v_def rho_plus_2gamma_def ex_buf_def v_hat_spec_def ex_1_contents)

text \<open>
  For a wrapper with \<open>b\<close> and \<open>c\<close> identically zero the kernel is emitted, and over the
  reals its expressions have the values of the host's \<open>rho_hat\<close> and \<open>v_hat\<close>, followed by
  the division by \<open>beta\<close>.
\<close>

lemma eval_rho_plus_2gamma:
  "eval_cexp rho buf (rho_plus_2gamma self) = Some (rho + 2 * pf_gamma self)"
  by (simp add: rho_plus_2gamma_def)

lemma gen_cuda_code_zero_bc:
  assumes "all_zero (contents h (pf_b self))" "all_zero (contents h (pf_c self))"
  shows "gen_cuda_code h self = Inr (emit_kernel [] self)"
    and "pf_alpha self * (pf_beta self)\<^sup>2 \<noteq> 0 \<Longrightarrow>
         eval_cexp rho buf (k_rho_hat (emit_kernel [] self)) = Some (rho_hat_spec self rho)"
    and "rho + 2 * pf_gamma self \<noteq> 0 \<Longrightarrow>
         eval_cexp rho buf (k_v_hat (emit_kernel [] self))
           = Some (((buf ''v'' * rho) - 0) * (pf_beta self / (rho + 2 * pf_gamma self)) - 0)"
    and "pf_beta self \<noteq> 0 \<Longrightarrow>
         exec_cstmts buf (k_post (emit_kernel [] self)) x = Some ((x + 0) / pf_beta self)"
  using assms
  by (simp_all add: gen_cuda_code_def cuda_additional_buffers_def emit_kernel_def
      gen_rho_hat_def gen_v_def gen_post_def eval_rho_plus_2gamma rho_hat_spec_def Let_def)

end
